theory Spec2Isabelle
  imports Main
begin

section \<open>Python strings\<close>

text \<open>
  A Python \<open>str\<close> is a list of Unicode code points; \<open>len\<close> counts code points. The
  literals of the source (messages, dictionary keys, the token type) are written as
  Isabelle strings, and \<open>ascii\<close> reads an ASCII literal as a Python string.

  \<open>str.strip()\<close> removes the whitespace at both ends, and a string is blank for
  \<open>v.strip() == ""\<close> when all its characters are whitespace. The whitespace characters of
  \<open>str\<close> are the 29 code points for which \<open>str.isspace()\<close> holds: U+0009 to U+000D,
  U+001C to U+0020, U+0085, U+00A0, U+1680, U+2000 to U+200A, U+2028, U+2029, U+202F,
  U+205F and U+3000.
\<close>

type_synonym pystr = "nat list"

definition ascii :: "string \<Rightarrow> pystr" where
  "ascii s = map of_char s"

definition is_space :: "nat \<Rightarrow> bool" where
  "is_space n = ((9 \<le> n \<and> n \<le> 13) \<or> (28 \<le> n \<and> n \<le> 32) \<or> n = 133 \<or> n = 160 \<or> n = 5760
                 \<or> (8192 \<le> n \<and> n \<le> 8202) \<or> n = 8232 \<or> n = 8233 \<or> n = 8239 \<or> n = 8287
                 \<or> n = 12288)"

definition strip :: "pystr \<Rightarrow> pystr" where
  "strip s = rev (dropWhile is_space (rev (dropWhile is_space s)))"

section \<open>Models: the rows of the two tables\<close>

text \<open>
  A \<open>datetime\<close> is a point of the UTC clock in microseconds, a \<open>timedelta\<close> a number of
  microseconds. Every call of \<open>datetime.utcnow()\<close> in the source is an argument of the
  function that makes it: the reading of the clock at that call.
\<close>

type_synonym datetime = int

record task =
  task_id :: int
  title :: pystr
  description :: "pystr option"
  completed :: bool
  user_id :: int
  created_at :: datetime
  updated_at :: datetime

record user =
  uid :: int
  email :: pystr
  password_hash :: pystr
  name :: pystr
  user_created_at :: datetime
  user_updated_at :: datetime

text \<open>
  The store: the rows of \<open>users\<close> and \<open>tasks\<close> in insertion order, and the two sequences
  that assign the primary keys.
\<close>

record database =
  users :: "user list"
  tasks :: "task list"
  users_id_seq :: int
  tasks_id_seq :: int

definition empty_db :: database where
  "empty_db = \<lparr>users = [], tasks = [], users_id_seq = 1, tasks_id_seq = 1\<rparr>"

text \<open>The primary key of \<open>tasks\<close>: ids are distinct and were all handed out by the sequence.\<close>

definition tasks_pk :: "database \<Rightarrow> bool" where
  "tasks_pk db = (distinct (map task_id (tasks db)) \<and> list_all (\<lambda>t. task_id t < tasks_id_seq db) (tasks db))"

section \<open>Exceptions\<close>

text \<open>
  One universe of the exceptions that the modelled code raises or catches. \<open>str(e)\<close> of an
  exception built from one message is that message.
\<close>

datatype exn =
  NotFoundError string
  | ConflictError string
  | AuthenticationError string
  | HTTPException (status_code: nat) (detail: string) (headers: "(string \<times> string) list")
  | IntegrityError
  | JWTError
  | ExpiredSignatureError
  | ValueError string
  | RequestValidationError

section \<open>Configuration and library parameters\<close>

record settings =
  BETTER_AUTH_SECRET :: string
  ACCESS_TOKEN_EXPIRE_MINUTES :: int
  REFRESH_TOKEN_EXPIRE_DAYS :: int
  ALGORITHM :: string

text \<open>The claims of a token: the dictionary that \<open>jwt.encode\<close> signs and \<open>jwt.decode\<close> returns.\<close>

type_synonym payload = "string \<rightharpoonup> int"

text \<open>
  What the code calls and the sources do not hold is a parameter: the built-in
  \<open>str.lower()\<close> with its Unicode case table, \<open>pwd_context.hash\<close> and
  \<open>pwd_context.verify\<close> (passlib, bcrypt), and the keyed MAC of the signing algorithm,
  which maps the algorithm name, the key and the claims to a signature.
\<close>

record library =
  str_lower :: "pystr \<Rightarrow> pystr"
  pwd_hash :: "pystr \<Rightarrow> pystr"
  pwd_verify :: "pystr \<Rightarrow> pystr \<Rightarrow> bool"
  hmac :: "string \<Rightarrow> string \<Rightarrow> payload \<Rightarrow> string"

definition timedelta_minutes :: "int \<Rightarrow> int" where
  "timedelta_minutes m = m * 60000000"

definition timedelta_days :: "int \<Rightarrow> int" where
  "timedelta_days d = d * 86400000000"

section \<open>The token library\<close>

text \<open>
  Modelled from the spec: the token format of the JWT library (\<open>jose\<close>), which is not in
  the sources. After the spec (3, 4.2), a token is a signed structure that carries the
  claims (subject and expiry); a token string that has not this structure is malformed.
\<close>

datatype jwt =
  Malformed pystr
  | Signed (jwt_alg: string) (jwt_claims: payload) (jwt_signature: string)

text \<open>
  Modelled from the spec: \<open>jose.jwt.encode\<close>, the library call inside
  \<open>create_access_token\<close> and \<open>create_refresh_token\<close>, is not in the sources. After the
  spec (4.2) it signs the claims with the shared secret by the keyed MAC of the algorithm.
\<close>

definition jwt_encode :: "library \<Rightarrow> payload \<Rightarrow> string \<Rightarrow> string \<Rightarrow> jwt" where
  "jwt_encode c claims key alg = Signed alg claims (hmac c alg key claims)"

text \<open>
  Modelled from the spec: \<open>jose.jwt.decode\<close>, the library call inside \<open>verify_token\<close>, is
  not in the sources. After the spec (4.2) it checks the structure, the signature against
  the shared secret and the expiry by \<open>now < expiry\<close>, where \<open>now\<close> is the clock at the
  call; every failure is a \<open>JWTError\<close> (an expired token the subclass
  \<open>ExpiredSignatureError\<close>). A token with no expiry claim cannot pass the expiry check.
\<close>

definition jwt_decode :: "library \<Rightarrow> datetime \<Rightarrow> jwt \<Rightarrow> string \<Rightarrow> string list \<Rightarrow> exn + payload" where
  "jwt_decode c now token key algorithms =
     (case token of
        Malformed s \<Rightarrow> Inl JWTError
      | Signed alg claims sig \<Rightarrow>
          if alg \<notin> set algorithms then Inl JWTError
          else if sig \<noteq> hmac c alg key claims then Inl JWTError
          else (case claims ''exp'' of
                  None \<Rightarrow> Inl JWTError
                | Some e \<Rightarrow> if now < e then Inr claims else Inl ExpiredSignatureError))"

section \<open>Security utilities\<close>

definition hash_password :: "library \<Rightarrow> pystr \<Rightarrow> pystr" where
  "hash_password c password = pwd_hash c password"

definition verify_password :: "library \<Rightarrow> pystr \<Rightarrow> pystr \<Rightarrow> bool" where
  "verify_password c plain_password hashed_password = pwd_verify c plain_password hashed_password"

text \<open>\<open>if expires_delta:\<close> is false for \<open>None\<close> and for a zero \<open>timedelta\<close>.\<close>

definition create_access_token :: "library \<Rightarrow> settings \<Rightarrow> datetime \<Rightarrow> payload \<Rightarrow> int option \<Rightarrow> jwt" where
  "create_access_token c cfg now data expires_delta =
     (let expire = (case expires_delta of
                      Some d \<Rightarrow> if d \<noteq> 0 then now + d
                                else now + timedelta_minutes (ACCESS_TOKEN_EXPIRE_MINUTES cfg)
                    | None \<Rightarrow> now + timedelta_minutes (ACCESS_TOKEN_EXPIRE_MINUTES cfg));
          to_encode = data(''exp'' \<mapsto> expire)
      in jwt_encode c to_encode (BETTER_AUTH_SECRET cfg) (ALGORITHM cfg))"

definition create_refresh_token :: "library \<Rightarrow> settings \<Rightarrow> datetime \<Rightarrow> payload \<Rightarrow> jwt" where
  "create_refresh_token c cfg now data =
     (let expire = now + timedelta_days (REFRESH_TOKEN_EXPIRE_DAYS cfg);
          to_encode = data(''exp'' \<mapsto> expire)
      in jwt_encode c to_encode (BETTER_AUTH_SECRET cfg) (ALGORITHM cfg))"

text \<open>\<open>try: return jwt.decode(...)  except JWTError: return None\<close>; anything else would propagate.\<close>

definition verify_token :: "library \<Rightarrow> settings \<Rightarrow> datetime \<Rightarrow> jwt \<Rightarrow> exn + payload option" where
  "verify_token c cfg now token =
     (case jwt_decode c now token (BETTER_AUTH_SECRET cfg) [ALGORITHM cfg] of
        Inr payload \<Rightarrow> Inr (Some payload)
      | Inl JWTError \<Rightarrow> Inr None
      | Inl ExpiredSignatureError \<Rightarrow> Inr None
      | Inl e \<Rightarrow> Inl e)"

section \<open>Dependencies\<close>

text \<open>
  \<open>get_current_user\<close> returns the dictionary \<open>{"user_id": user_id}\<close>; the model returns
  the user id that the routes read from it.
\<close>

definition get_current_user :: "library \<Rightarrow> settings \<Rightarrow> datetime \<Rightarrow> jwt \<Rightarrow> exn + int" where
  "get_current_user c cfg now token =
     (case verify_token c cfg now token of
        Inl e \<Rightarrow> Inl e
      | Inr None \<Rightarrow> Inl (HTTPException 401 ''Invalid or expired token'' [(''WWW-Authenticate'', ''Bearer'')])
      | Inr (Some payload) \<Rightarrow>
          (case payload ''user_id'' of
             None \<Rightarrow> Inl (HTTPException 401 ''Invalid token payload'' [(''WWW-Authenticate'', ''Bearer'')])
           | Some subject \<Rightarrow> Inr subject))"

section \<open>Authentication service\<close>

text \<open>
  The insert of a user row: the unique index on \<open>users.email\<close> raises \<open>IntegrityError\<close> for
  an email that a row already has; otherwise the row is stored under the next id.
\<close>

definition insert_user :: "database \<Rightarrow> pystr \<Rightarrow> pystr \<Rightarrow> pystr \<Rightarrow> datetime \<Rightarrow> datetime \<Rightarrow> exn + (database \<times> user)" where
  "insert_user db em hashed nm now_created now_updated =
     (if list_ex (\<lambda>r. email r = em) (users db) then Inl IntegrityError
      else (let u = \<lparr>uid = users_id_seq db, email = em, password_hash = hashed, name = nm,
                      user_created_at = now_created, user_updated_at = now_updated\<rparr>
            in Inr (db\<lparr>users := users db @ [u], users_id_seq := users_id_seq db + 1\<rparr>, u)))"

text \<open>
  \<open>create_user\<close> checks and then inserts. \<open>db\<close> is the store as the existence check reads
  it, \<open>db_commit\<close> the store as the commit finds it: the same store when no other signup
  commits in between.
\<close>

definition create_user :: "library \<Rightarrow> database \<Rightarrow> database \<Rightarrow> datetime \<Rightarrow> datetime \<Rightarrow> pystr \<Rightarrow> pystr \<Rightarrow> pystr \<Rightarrow> exn + (database \<times> user)" where
  "create_user c db db_commit now_created now_updated em password nm =
     (case find (\<lambda>u. email u = str_lower c em) (users db) of
        Some existing_user \<Rightarrow> Inl (ConflictError ''Email already registered'')
      | None \<Rightarrow>
          (let hashed_password = hash_password c password
           in (case insert_user db_commit (str_lower c em) hashed_password (strip nm) now_created now_updated of
                 Inr r \<Rightarrow> Inr r
               | Inl IntegrityError \<Rightarrow> Inl (ConflictError ''Email already registered'')
               | Inl e \<Rightarrow> Inl e)))"

definition authenticate_user :: "library \<Rightarrow> database \<Rightarrow> pystr \<Rightarrow> pystr \<Rightarrow> exn + user" where
  "authenticate_user c db em password =
     (case find (\<lambda>u. email u = str_lower c em) (users db) of
        None \<Rightarrow> Inl (AuthenticationError ''Invalid email or password'')
      | Some u \<Rightarrow>
          if \<not> verify_password c password (password_hash u)
          then Inl (AuthenticationError ''Invalid email or password'')
          else Inr u)"

section \<open>Authentication routes\<close>

record SignupRequest =
  signup_email :: pystr
  signup_password :: pystr
  signup_name :: pystr

record SigninRequest =
  signin_email :: pystr
  signin_password :: pystr

record UserResponse =
  resp_id :: int
  resp_email :: pystr
  resp_name :: pystr
  resp_created_at :: datetime

record AuthResponse =
  resp_user :: UserResponse
  access_token :: jwt
  refresh_token :: jwt
  token_type :: string

record RefreshResponse =
  new_access_token :: jwt
  new_token_type :: string

definition auth_response :: "library \<Rightarrow> settings \<Rightarrow> datetime \<Rightarrow> datetime \<Rightarrow> user \<Rightarrow> AuthResponse" where
  "auth_response c cfg now_access now_refresh u =
     \<lparr>resp_user = \<lparr>resp_id = uid u, resp_email = email u, resp_name = name u,
                    resp_created_at = user_created_at u\<rparr>,
      access_token = create_access_token c cfg now_access [''user_id'' \<mapsto> uid u] None,
      refresh_token = create_refresh_token c cfg now_refresh [''user_id'' \<mapsto> uid u],
      token_type = ''bearer''\<rparr>"

definition signup :: "library \<Rightarrow> settings \<Rightarrow> database \<Rightarrow> database \<Rightarrow> datetime \<Rightarrow> datetime \<Rightarrow> datetime \<Rightarrow> datetime \<Rightarrow> SignupRequest \<Rightarrow> exn + (database \<times> AuthResponse)" where
  "signup c cfg db db_commit now_created now_updated now_access now_refresh request =
     (case create_user c db db_commit now_created now_updated
             (signup_email request) (signup_password request) (signup_name request) of
        Inr (db', u) \<Rightarrow> Inr (db', auth_response c cfg now_access now_refresh u)
      | Inl (ConflictError e) \<Rightarrow> Inl (HTTPException 409 e [])
      | Inl e \<Rightarrow> Inl e)"

definition signin :: "library \<Rightarrow> settings \<Rightarrow> database \<Rightarrow> datetime \<Rightarrow> datetime \<Rightarrow> SigninRequest \<Rightarrow> exn + AuthResponse" where
  "signin c cfg db now_access now_refresh request =
     (case authenticate_user c db (signin_email request) (signin_password request) of
        Inr u \<Rightarrow> Inr (auth_response c cfg now_access now_refresh u)
      | Inl (AuthenticationError e) \<Rightarrow> Inl (HTTPException 401 e [])
      | Inl e \<Rightarrow> Inl e)"

text \<open>
  \<open>refresh\<close> takes no database session: \<open>now_verify\<close> is the clock at the verification,
  \<open>now_issue\<close> the clock when the new access token is made.
\<close>

definition refresh :: "library \<Rightarrow> settings \<Rightarrow> datetime \<Rightarrow> datetime \<Rightarrow> jwt \<Rightarrow> exn + RefreshResponse" where
  "refresh c cfg now_verify now_issue token =
     (case verify_token c cfg now_verify token of
        Inl e \<Rightarrow> Inl e
      | Inr None \<Rightarrow> Inl (HTTPException 401 ''Invalid or expired refresh token'' [])
      | Inr (Some payload) \<Rightarrow>
          (case payload ''user_id'' of
             None \<Rightarrow> Inl (HTTPException 401 ''Invalid token payload'' [])
           | Some subject \<Rightarrow>
               Inr \<lparr>new_access_token = create_access_token c cfg now_issue [''user_id'' \<mapsto> subject] None,
                    new_token_type = ''bearer''\<rparr>))"

section \<open>Task schemas\<close>

text \<open>
  \<open>CreateTaskRequest\<close>: the field constraints (\<open>min_length\<close>, \<open>max_length\<close>), then the two
  validators. A failure of either is the request validation error of the framework.
\<close>

definition validate_title :: "pystr \<Rightarrow> exn + pystr" where
  "validate_title v =
     (if v = [] \<or> strip v = [] then Inl (ValueError ''Title cannot be empty'')
      else if length v > 200 then Inl (ValueError ''Title must not exceed 200 characters'')
      else Inr (strip v))"

definition validate_description :: "pystr option \<Rightarrow> exn + pystr option" where
  "validate_description v =
     (case v of
        None \<Rightarrow> Inr None
      | Some s \<Rightarrow>
          if length s > 2000 then Inl (ValueError ''Description must not exceed 2000 characters'')
          else Inr (if strip s \<noteq> [] then Some (strip s) else None))"

record CreateTaskRequest =
  request_title :: pystr
  request_description :: "pystr option"

definition parse_CreateTaskRequest :: "pystr \<Rightarrow> pystr option \<Rightarrow> exn + CreateTaskRequest" where
  "parse_CreateTaskRequest ttl descr =
     (if length ttl < 1 \<or> length ttl > 200 then Inl RequestValidationError
      else if (case descr of None \<Rightarrow> False | Some s \<Rightarrow> length s > 2000) then Inl RequestValidationError
      else (case validate_title ttl of
              Inl e \<Rightarrow> Inl RequestValidationError
            | Inr t \<Rightarrow>
                (case validate_description descr of
                   Inl e \<Rightarrow> Inl RequestValidationError
                 | Inr d \<Rightarrow> Inr \<lparr>request_title = t, request_description = d\<rparr>)))"

section \<open>Task service\<close>

text \<open>\<open>description.strip() if description else None\<close>: \<open>None\<close> and the empty string are falsy.\<close>

definition strip_description :: "pystr option \<Rightarrow> pystr option" where
  "strip_description d = (case d of None \<Rightarrow> None | Some s \<Rightarrow> if s \<noteq> [] then Some (strip s) else None)"

text \<open>
  \<open>create_task\<close>: the \<open>Task\<close> constructor reads the clock once for \<open>created_at\<close> and once for
  \<open>updated_at\<close> (two \<open>default_factory\<close> calls); the insert assigns the id.
\<close>

definition create_task :: "database \<Rightarrow> datetime \<Rightarrow> datetime \<Rightarrow> pystr \<Rightarrow> pystr option \<Rightarrow> int \<Rightarrow> database \<times> task" where
  "create_task db now_created now_updated ttl descr owner =
     (let t = \<lparr>task_id = tasks_id_seq db, title = strip ttl, description = strip_description descr,
                completed = False, user_id = owner, created_at = now_created, updated_at = now_updated\<rparr>
      in (db\<lparr>tasks := tasks db @ [t], tasks_id_seq := tasks_id_seq db + 1\<rparr>, t))"

definition get_user_tasks :: "database \<Rightarrow> int \<Rightarrow> task list" where
  "get_user_tasks db owner = filter (\<lambda>t. user_id t = owner) (tasks db)"

text \<open>\<open>select(Task).where(Task.id == task_id, Task.user_id == user_id)\<close>, then \<open>.first()\<close>.\<close>

definition get_task_by_id :: "database \<Rightarrow> int \<Rightarrow> int \<Rightarrow> task option" where
  "get_task_by_id db tid owner = find (\<lambda>t. task_id t = tid \<and> user_id t = owner) (tasks db)"

text \<open>
  \<open>db.add(task); db.commit(); db.refresh(task)\<close> on a fetched object: the row with the
  object's primary key takes the object's state. \<open>db.delete(task); db.commit()\<close> removes
  the row with that primary key.
\<close>

definition commit_task :: "task \<Rightarrow> database \<Rightarrow> database" where
  "commit_task t db = db\<lparr>tasks := map (\<lambda>r. if task_id r = task_id t then t else r) (tasks db)\<rparr>"

definition delete_row :: "task \<Rightarrow> database \<Rightarrow> database" where
  "delete_row t db = db\<lparr>tasks := filter (\<lambda>r. task_id r \<noteq> task_id t) (tasks db)\<rparr>"

definition update_task :: "database \<Rightarrow> datetime \<Rightarrow> int \<Rightarrow> int \<Rightarrow> pystr \<Rightarrow> pystr option \<Rightarrow> exn + (database \<times> task)" where
  "update_task db now tid owner ttl descr =
     (case get_task_by_id db tid owner of
        None \<Rightarrow> Inl (NotFoundError ''Task not found'')
      | Some t \<Rightarrow>
          (let t' = t\<lparr>title := strip ttl, description := strip_description descr, updated_at := now\<rparr>
           in Inr (commit_task t' db, t')))"

definition toggle_task_completion :: "database \<Rightarrow> datetime \<Rightarrow> int \<Rightarrow> int \<Rightarrow> exn + (database \<times> task)" where
  "toggle_task_completion db now tid owner =
     (case get_task_by_id db tid owner of
        None \<Rightarrow> Inl (NotFoundError ''Task not found'')
      | Some t \<Rightarrow>
          (let t' = t\<lparr>completed := \<not> completed t, updated_at := now\<rparr>
           in Inr (commit_task t' db, t')))"

definition delete_task :: "database \<Rightarrow> int \<Rightarrow> int \<Rightarrow> exn + database" where
  "delete_task db tid owner =
     (case get_task_by_id db tid owner of
        None \<Rightarrow> Inl (NotFoundError ''Task not found'')
      | Some t \<Rightarrow> Inr (delete_row t db))"

text \<open>
  The identity of a row: whatever row of \<open>db'\<close> has the id of a row of \<open>db\<close> has its owner
  and its creation time.
\<close>

definition owner_preserved :: "database \<Rightarrow> database \<Rightarrow> bool" where
  "owner_preserved db db' =
     (\<forall>r \<in> set (tasks db). \<forall>r' \<in> set (tasks db').
        task_id r' = task_id r \<longrightarrow> user_id r' = user_id r \<and> created_at r' = created_at r)"

section \<open>Task routes\<close>

text \<open>
  The routes receive the caller identity that \<open>get_current_user\<close> extracted from the token
  (\<open>current_user["user_id"]\<close>).
\<close>

definition get_task :: "database \<Rightarrow> int \<Rightarrow> int \<Rightarrow> exn + task" where
  "get_task db tid current_user_id =
     (case get_task_by_id db tid current_user_id of
        None \<Rightarrow> Inl (HTTPException 404 ''Task not found'' [])
      | Some t \<Rightarrow> Inr t)"


section \<open>Example data\<close>

text \<open>
  A configuration with the default lifetimes, toy primitives, and a store with two users
  (Ann, id 1, and Bob, id 2) and one task of each. \<open>ascii_lower\<close> is \<open>str.lower()\<close> on
  ASCII strings.
\<close>

definition ascii_lower :: "pystr \<Rightarrow> pystr" where
  "ascii_lower s = map (\<lambda>n. if 65 \<le> n \<and> n \<le> 90 then n + 32 else n) s"

definition example_cfg :: settings where
  "example_cfg = \<lparr>BETTER_AUTH_SECRET = ''0123456789abcdef0123456789abcdef'',
                    ACCESS_TOKEN_EXPIRE_MINUTES = 15, REFRESH_TOKEN_EXPIRE_DAYS = 7,
                    ALGORITHM = ''HS256''\<rparr>"

definition example_library :: library where
  "example_library = \<lparr>str_lower = ascii_lower,
                        pwd_hash = (\<lambda>p. ascii ''$2b$12$'' @ p),
                        pwd_verify = (\<lambda>p h. h = ascii ''$2b$12$'' @ p),
                        hmac = (\<lambda>alg key claims. alg @ '':'' @ key)\<rparr>"

definition ann :: user where
  "ann = \<lparr>uid = 1, email = ascii ''a@x.com'', password_hash = ascii ''$2b$12$password123'', name = ascii ''Ann'',
           user_created_at = 10, user_updated_at = 11\<rparr>"

definition bob :: user where
  "bob = \<lparr>uid = 2, email = ascii ''b@x.com'', password_hash = ascii ''$2b$12$hunter2hunter2'', name = ascii ''Bob'',
           user_created_at = 20, user_updated_at = 21\<rparr>"

definition bobs_task :: task where
  "bobs_task = \<lparr>task_id = 1, title = ascii ''Pay rent'', description = None, completed = False,
                 user_id = 2, created_at = 100, updated_at = 101\<rparr>"

definition anns_task :: task where
  "anns_task = \<lparr>task_id = 2, title = ascii ''Buy milk'', description = Some (ascii ''2 litres''), completed = False,
                 user_id = 1, created_at = 200, updated_at = 201\<rparr>"

definition example_db :: database where
  "example_db = \<lparr>users = [ann, bob], tasks = [bobs_task, anns_task],
                   users_id_seq = 3, tasks_id_seq = 3\<rparr>"

section \<open>Facts about the string helpers\<close>






section \<open>Facts about the example data\<close>

lemma example_db_pk: "tasks_pk example_db"
  by (simp add: tasks_pk_def example_db_def bobs_task_def anns_task_def)


section \<open>Facts about the task store\<close>

lemma find_None_iff_no_row:
  "(find P xs = None) = (\<forall>x \<in> set xs. \<not> P x)"
  by (induction xs) auto

lemma pk_owner_unique:
  assumes "distinct (map task_id rows)" and "t \<in> set rows" and "r \<in> set rows"
    and "task_id r = task_id t"
  shows "r = t"
  using assms by (meson distinct_map inj_onD)

lemma get_task_by_id_SomeD:
  "get_task_by_id db tid owner = Some t \<Longrightarrow> t \<in> set (tasks db) \<and> task_id t = tid \<and> user_id t = owner"
  unfolding get_task_by_id_def by (induction "tasks db" arbitrary: db) (auto simp: find_Some_iff)

lemma find_own_row:
  "distinct (map task_id rows) \<Longrightarrow> t \<in> set rows \<Longrightarrow>
   find (\<lambda>r. task_id r = task_id t \<and> user_id r = user_id t) rows = Some t"
proof (induction rows)
  case Nil
  then show ?case by simp
next
  case (Cons r rows)
  then show ?case by (cases "r = t") force+
qed

lemma get_own_task:
  "tasks_pk db \<Longrightarrow> t \<in> set (tasks db) \<Longrightarrow> get_task_by_id db (task_id t) (user_id t) = Some t"
  by (simp add: tasks_pk_def get_task_by_id_def find_own_row)

lemma replace_by_pk:
  "distinct (map task_id rows) \<Longrightarrow> t \<in> set rows \<Longrightarrow> task_id t' = task_id t \<Longrightarrow>
   map (\<lambda>r. if task_id r = task_id t' then t' else r) rows = map (\<lambda>r. if r = t then t' else r) rows"
  by (rule map_cong) (auto dest: pk_owner_unique)

lemma filter_by_pk:
  "distinct (map task_id rows) \<Longrightarrow> t \<in> set rows \<Longrightarrow>
   filter (\<lambda>r. task_id r \<noteq> task_id t) rows = filter (\<lambda>r. r \<noteq> t) rows"
  by (rule filter_cong) (auto dest: pk_owner_unique)

lemma find_after_replace:
  "t \<in> set rows \<Longrightarrow> task_id t' = task_id t \<Longrightarrow> 
   find (\<lambda>r. task_id r = task_id t' \<and> user_id r = user_id t')
        (map (\<lambda>r. if task_id r = task_id t' then t' else r) rows) = Some t'"
  by (induction rows) auto

lemma get_after_commit:
  "get_task_by_id db tid owner = Some t \<Longrightarrow> task_id t' = task_id t \<Longrightarrow> user_id t' = user_id t \<Longrightarrow>
   get_task_by_id (commit_task t' db) tid owner = Some t'"
  using find_after_replace [of t "tasks db" t'] get_task_by_id_SomeD [of db tid owner t]
  by (simp add: get_task_by_id_def commit_task_def)

lemma ids_after_replace:
  "map task_id (map (\<lambda>r. if task_id r = task_id t' then t' else r) rows) = map task_id rows"
  by (induction rows) auto

lemma commit_task_ids: "map task_id (tasks (commit_task t' db)) = map task_id (tasks db)"
  by (simp add: commit_task_def ids_after_replace del: map_map)

lemma commit_task_pk: "tasks_pk db \<Longrightarrow> tasks_pk (commit_task t' db)"
proof -
  assume pk: "tasks_pk db"
  have "list_all (\<lambda>i. i < tasks_id_seq db) (map task_id (tasks db))"
    using pk by (simp add: tasks_pk_def list_all_iff)
  then have "list_all (\<lambda>i. i < tasks_id_seq db) (map task_id (tasks (commit_task t' db)))"
    by (simp only: commit_task_ids)
  moreover have "distinct (map task_id (tasks (commit_task t' db)))"
    using pk by (simp only: commit_task_ids tasks_pk_def)
  moreover have "tasks_id_seq (commit_task t' db) = tasks_id_seq db"
    by (simp add: commit_task_def)
  ultimately show ?thesis
    by (simp add: tasks_pk_def list_all_iff)
qed

lemma delete_row_pk: "tasks_pk db \<Longrightarrow> tasks_pk (delete_row t db)"
  by (simp add: tasks_pk_def delete_row_def list_all_iff distinct_map_filter)

lemma create_task_pk: "tasks_pk db \<Longrightarrow> tasks_pk (fst (create_task db nc nu ttl descr owner))"
  by (force simp: tasks_pk_def create_task_def list_all_iff Let_def)


text \<open>
  The primary key holds in the empty store and every operation of the task service keeps
  it, so it holds in every store that the service can reach.
\<close>

lemma tasks_pk_preserved:
  assumes "tasks_pk db"
  shows "tasks_pk (fst (create_task db nc nu ttl descr owner))"
    and "update_task db now tid owner ttl descr = Inr (db', t') \<Longrightarrow> tasks_pk db'"
    and "toggle_task_completion db now tid owner = Inr (db', t') \<Longrightarrow> tasks_pk db'"
    and "delete_task db tid owner = Inr db' \<Longrightarrow> tasks_pk db'"
proof -
  show "tasks_pk (fst (create_task db nc nu ttl descr owner))"
    using assms by (rule create_task_pk)
  show "update_task db now tid owner ttl descr = Inr (db', t') \<Longrightarrow> tasks_pk db'"
    using commit_task_pk [OF assms] by (auto simp: update_task_def Let_def split: option.splits)
  show "toggle_task_completion db now tid owner = Inr (db', t') \<Longrightarrow> tasks_pk db'"
    using commit_task_pk [OF assms] by (auto simp: toggle_task_completion_def Let_def split: option.splits)
  show "delete_task db tid owner = Inr db' \<Longrightarrow> tasks_pk db'"
    using delete_row_pk [OF assms] by (auto simp: delete_task_def split: option.splits)
qed

section \<open>Ownership isolation of the lookup\<close>

text \<open>
  C1. A lookup by caller \<open>a\<close> of the id of a task that another user owns gives the same
  outcome as a lookup of an id that no row has: the service returns \<open>None\<close> for both, and
  the route answers both with the same 404 and the same detail.
\<close>

theorem get_other_owner_indistinguishable:
  assumes "tasks_pk db"
    and "t \<in> set (tasks db)" and "user_id t \<noteq> a"
    and "\<forall>r \<in> set (tasks db). task_id r \<noteq> missing"
  shows "get_task_by_id db (task_id t) a = None
       \<and> get_task_by_id db missing a = None
       \<and> get_task db (task_id t) a = get_task db missing a
       \<and> get_task db (task_id t) a = Inl (HTTPException 404 ''Task not found'' [])"
proof -
  have d: "distinct (map task_id (tasks db))"
    using assms(1) by (simp add: tasks_pk_def)
  have "\<forall>r \<in> set (tasks db). \<not> (task_id r = task_id t \<and> user_id r = a)"
    using pk_owner_unique [OF d assms(2)] assms(3) by blast
  then have other: "get_task_by_id db (task_id t) a = None"
    unfolding get_task_by_id_def find_None_iff_no_row by simp
  have none: "get_task_by_id db missing a = None"
    unfolding get_task_by_id_def find_None_iff_no_row using assms(4) by simp
  show ?thesis
    using other none by (simp add: get_task_def)
qed

theorem get_other_owner_indistinguishable_witness:
  "tasks_pk example_db \<and> bobs_task \<in> set (tasks example_db) \<and> user_id bobs_task \<noteq> 1
   \<and> get_task_by_id example_db 1 1 = None
   \<and> get_task_by_id example_db 999999 1 = None
   \<and> get_task example_db 1 1 = get_task example_db 999999 1
   \<and> get_task example_db 1 1 = Inl (HTTPException 404 ''Task not found'' [])"
proof -
  have mem: "bobs_task \<in> set (tasks example_db)"
    by (simp add: example_db_def)
  have own: "user_id bobs_task \<noteq> 1"
    by (simp add: bobs_task_def)
  have miss: "\<forall>r \<in> set (tasks example_db). task_id r \<noteq> 999999"
    by (simp add: example_db_def bobs_task_def anns_task_def)
  have tid: "task_id bobs_task = 1"
    by (simp add: bobs_task_def)
  show ?thesis
    using get_other_owner_indistinguishable [OF example_db_pk mem own miss] example_db_pk mem own
    unfolding tid by auto
qed

section \<open>Delete\<close>

lemma delete_task_result:
  assumes "tasks_pk db" and "delete_task db tid owner = Inr db'"
  shows "\<exists>t. get_task_by_id db tid owner = Some t \<and> db' = delete_row t db
       \<and> tasks db' = filter (\<lambda>r. r \<noteq> t) (tasks db) \<and> task_id t = tid \<and> user_id t = owner"
proof -
  from assms(2) obtain t where t: "get_task_by_id db tid owner = Some t" and d: "db' = delete_row t db"
    by (auto simp: delete_task_def split: option.splits)
  from get_task_by_id_SomeD [OF t] have mem: "t \<in> set (tasks db)" and id: "task_id t = tid" "user_id t = owner"
    by simp_all
  have "tasks db' = filter (\<lambda>r. r \<noteq> t) (tasks db)"
    using filter_by_pk [of "tasks db" t] assms(1) mem d by (simp add: delete_row_def tasks_pk_def)
  with t d id show ?thesis by blast
qed

text \<open>
  C10. After a successful \<open>delete_task\<close> for an owner and an id, the lookup of that id by
  that owner finds nothing and the route answers 404. The delete removes exactly the row
  that the lookup found: every other row of the table, of this owner and of every other
  owner, is still there, unchanged and in place, and the users are untouched.
\<close>

theorem delete_then_get_not_found:
  assumes "tasks_pk db" and "delete_task db tid owner = Inr db'"
  shows "get_task_by_id db' tid owner = None
       \<and> get_task db' tid owner = Inl (HTTPException 404 ''Task not found'' [])
       \<and> (\<exists>t. get_task_by_id db tid owner = Some t \<and> tasks db' = filter (\<lambda>r. r \<noteq> t) (tasks db))
       \<and> (\<forall>r \<in> set (tasks db). task_id r \<noteq> tid \<longrightarrow> r \<in> set (tasks db'))
       \<and> (\<forall>u. u \<noteq> owner \<longrightarrow> get_user_tasks db' u = get_user_tasks db u)
       \<and> users db' = users db"
proof -
  from delete_task_result [OF assms] obtain t where
    t: "get_task_by_id db tid owner = Some t" and d: "db' = delete_row t db"
    and rows: "tasks db' = filter (\<lambda>r. r \<noteq> t) (tasks db)" and id: "task_id t = tid" "user_id t = owner"
    by blast
  have gone: "get_task_by_id db' tid owner = None"
    unfolding get_task_by_id_def find_None_iff_no_row using d id by (simp add: delete_row_def)
  have others: "\<forall>r \<in> set (tasks db). task_id r \<noteq> tid \<longrightarrow> r \<in> set (tasks db')"
    using d id by (simp add: delete_row_def)
  have listing: "\<forall>u. u \<noteq> owner \<longrightarrow> get_user_tasks db' u = get_user_tasks db u"
    unfolding get_user_tasks_def rows using id by (auto intro: filter_cong)
  have "users db' = users db"
    using d by (simp add: delete_row_def)
  with gone others listing t rows show ?thesis
    by (simp add: get_task_def)
qed

theorem delete_then_get_not_found_witness:
  "tasks_pk example_db \<and> delete_task example_db 2 1 = Inr (example_db\<lparr>tasks := [bobs_task]\<rparr>)
   \<and> get_task_by_id (example_db\<lparr>tasks := [bobs_task]\<rparr>) 2 1 = None
   \<and> get_user_tasks (example_db\<lparr>tasks := [bobs_task]\<rparr>) 2 = get_user_tasks example_db 2"
proof -
  have del: "delete_task example_db 2 1 = Inr (example_db\<lparr>tasks := [bobs_task]\<rparr>)"
    by (simp add: delete_task_def get_task_by_id_def delete_row_def example_db_def bobs_task_def anns_task_def)
  show ?thesis
    using delete_then_get_not_found [OF example_db_pk del] example_db_pk del by simp
qed

section \<open>Update and toggle: what they change\<close>

lemma update_task_result:
  assumes "tasks_pk db" and "update_task db now tid owner ttl descr = Inr (db', t')"
  shows "\<exists>t. get_task_by_id db tid owner = Some t
           \<and> t' = t\<lparr>title := strip ttl, description := strip_description descr, updated_at := now\<rparr>
           \<and> db' = commit_task t' db
           \<and> tasks db' = map (\<lambda>r. if r = t then t' else r) (tasks db)"
proof -
  from assms(2) obtain t where t: "get_task_by_id db tid owner = Some t"
    and t': "t' = t\<lparr>title := strip ttl, description := strip_description descr, updated_at := now\<rparr>"
    and d: "db' = commit_task t' db"
    by (auto simp: update_task_def Let_def split: option.splits)
  have mem: "t \<in> set (tasks db)" using get_task_by_id_SomeD [OF t] by simp
  have "task_id t' = task_id t" using t' by simp
  then have "tasks db' = map (\<lambda>r. if r = t then t' else r) (tasks db)"
    using replace_by_pk [of "tasks db" t t'] assms(1) mem d by (simp add: commit_task_def tasks_pk_def)
  with t t' d show ?thesis by blast
qed

lemma toggle_task_result:
  assumes "tasks_pk db" and "toggle_task_completion db now tid owner = Inr (db', t')"
  shows "\<exists>t. get_task_by_id db tid owner = Some t
           \<and> t' = t\<lparr>completed := \<not> completed t, updated_at := now\<rparr>
           \<and> db' = commit_task t' db
           \<and> tasks db' = map (\<lambda>r. if r = t then t' else r) (tasks db)"
proof -
  from assms(2) obtain t where t: "get_task_by_id db tid owner = Some t"
    and t': "t' = t\<lparr>completed := \<not> completed t, updated_at := now\<rparr>"
    and d: "db' = commit_task t' db"
    by (auto simp: toggle_task_completion_def Let_def split: option.splits)
  have mem: "t \<in> set (tasks db)" using get_task_by_id_SomeD [OF t] by simp
  have "task_id t' = task_id t" using t' by simp
  then have "tasks db' = map (\<lambda>r. if r = t then t' else r) (tasks db)"
    using replace_by_pk [of "tasks db" t t'] assms(1) mem d by (simp add: commit_task_def tasks_pk_def)
  with t t' d show ?thesis by blast
qed

lemma replaced_row_columns:
  assumes "tasks db' = map (\<lambda>r. if r = t then t' else r) (tasks db)"
    and "task_id t' = task_id t" and "user_id t' = user_id t" and "created_at t' = created_at t"
  shows "map task_id (tasks db') = map task_id (tasks db)
       \<and> map user_id (tasks db') = map user_id (tasks db)
       \<and> map created_at (tasks db') = map created_at (tasks db)"
  using assms by (auto intro: map_cong)

lemma replaced_row_owner_preserved:
  assumes "tasks_pk db" and "t \<in> set (tasks db)"
    and "tasks db' = map (\<lambda>r. if r = t then t' else r) (tasks db)"
    and "task_id t' = task_id t" and "user_id t' = user_id t" and "created_at t' = created_at t"
  shows "owner_preserved db db'"
proof -
  have d: "distinct (map task_id (tasks db))" using assms(1) by (simp add: tasks_pk_def)
  show ?thesis
    unfolding owner_preserved_def
  proof (intro ballI impI)
    fix r r' assume r: "r \<in> set (tasks db)" and r': "r' \<in> set (tasks db')" and eq: "task_id r' = task_id r"
    from r' assms(3) obtain q where q: "q \<in> set (tasks db)" and r'q: "r' = (if q = t then t' else q)"
      by auto
    have "task_id q = task_id r" using eq r'q assms(4) by (auto split: if_splits)
    then have "q = r" using pk_owner_unique [OF d r q] by simp
    then show "user_id r' = user_id r \<and> created_at r' = created_at r"
      using r'q assms(5,6) by (auto split: if_splits)
  qed
qed

lemma create_task_owner_preserved:
  assumes "tasks_pk db" and "create_task db nc nu ttl descr owner = (db', t')"
  shows "owner_preserved db db'"
proof -
  have d: "distinct (map task_id (tasks db))" and lt: "\<forall>r \<in> set (tasks db). task_id r < tasks_id_seq db"
    using assms(1) by (simp_all add: tasks_pk_def list_all_iff)
  have rows: "tasks db' = tasks db @ [t']" and new: "task_id t' = tasks_id_seq db"
    using assms(2) by (auto simp: create_task_def Let_def)
  show ?thesis
    unfolding owner_preserved_def
  proof (intro ballI impI)
    fix r r' assume r: "r \<in> set (tasks db)" and r': "r' \<in> set (tasks db')" and eq: "task_id r' = task_id r"
    have "r' \<noteq> t'" using lt r eq new by auto
    then have "r' \<in> set (tasks db)" using r' rows by simp
    then have "r' = r" using pk_owner_unique [OF d r _ eq] by simp
    then show "user_id r' = user_id r \<and> created_at r' = created_at r" by simp
  qed
qed

lemma delete_task_owner_preserved:
  assumes "tasks_pk db" and "delete_task db tid owner = Inr db'"
  shows "owner_preserved db db'"
proof -
  have d: "distinct (map task_id (tasks db))" using assms(1) by (simp add: tasks_pk_def)
  from delete_task_result [OF assms] obtain t where rows: "tasks db' = filter (\<lambda>r. r \<noteq> t) (tasks db)"
    by blast
  show ?thesis
    unfolding owner_preserved_def
  proof (intro ballI impI)
    fix r r' assume r: "r \<in> set (tasks db)" and r': "r' \<in> set (tasks db')" and eq: "task_id r' = task_id r"
    have "r' \<in> set (tasks db)" using r' rows by simp
    then have "r' = r" using pk_owner_unique [OF d r _ eq] by simp
    then show "user_id r' = user_id r \<and> created_at r' = created_at r" by simp
  qed
qed

text \<open>
  C8. A successful \<open>update_task\<close> returns the fetched row with a new title, description
  and \<open>updated_at\<close>, a successful \<open>toggle_task_completion\<close> the fetched row with the
  flipped flag and a new \<open>updated_at\<close>: id, owner and \<open>created_at\<close> of the row (and the
  fields that the other operation changes) stay as they were. In the table only that row
  is replaced, so the columns of ids, owners and creation times are the same before and
  after. No operation of the service changes the owner of a row: create appends a row,
  delete removes one, update and toggle keep it.
\<close>

theorem update_toggle_frame:
  assumes "tasks_pk db"
  shows "(update_task db now tid owner ttl descr = Inr (db', t') \<longrightarrow>
            (\<exists>t. get_task_by_id db tid owner = Some t
               \<and> t' = t\<lparr>title := strip ttl, description := strip_description descr, updated_at := now\<rparr>
               \<and> task_id t' = task_id t \<and> user_id t' = user_id t \<and> created_at t' = created_at t
               \<and> completed t' = completed t
               \<and> tasks db' = map (\<lambda>r. if r = t then t' else r) (tasks db))
            \<and> map task_id (tasks db') = map task_id (tasks db)
            \<and> map user_id (tasks db') = map user_id (tasks db)
            \<and> map created_at (tasks db') = map created_at (tasks db)
            \<and> users db' = users db \<and> owner_preserved db db')
       \<and> (toggle_task_completion db now tid owner = Inr (db', t') \<longrightarrow>
            (\<exists>t. get_task_by_id db tid owner = Some t
               \<and> t' = t\<lparr>completed := \<not> completed t, updated_at := now\<rparr>
               \<and> task_id t' = task_id t \<and> user_id t' = user_id t \<and> created_at t' = created_at t
               \<and> title t' = title t \<and> description t' = description t
               \<and> tasks db' = map (\<lambda>r. if r = t then t' else r) (tasks db))
            \<and> map task_id (tasks db') = map task_id (tasks db)
            \<and> map user_id (tasks db') = map user_id (tasks db)
            \<and> map created_at (tasks db') = map created_at (tasks db)
            \<and> users db' = users db \<and> owner_preserved db db')
       \<and> (create_task db now_created now ttl descr owner = (db', t') \<longrightarrow>
            tasks db' = tasks db @ [t'] \<and> owner_preserved db db')
       \<and> (delete_task db tid owner = Inr db' \<longrightarrow> owner_preserved db db')"
proof (intro conjI impI)
  assume u: "update_task db now tid owner ttl descr = Inr (db', t')"
  from update_task_result [OF assms u] obtain t where t: "get_task_by_id db tid owner = Some t"
    and t': "t' = t\<lparr>title := strip ttl, description := strip_description descr, updated_at := now\<rparr>"
    and d: "db' = commit_task t' db"
    and rows: "tasks db' = map (\<lambda>r. if r = t then t' else r) (tasks db)"
    by blast
  have same: "task_id t' = task_id t" "user_id t' = user_id t" "created_at t' = created_at t"
             "completed t' = completed t"
    using t' by simp_all
  have mem: "t \<in> set (tasks db)" using get_task_by_id_SomeD [OF t] by simp
  show "\<exists>t. get_task_by_id db tid owner = Some t
               \<and> t' = t\<lparr>title := strip ttl, description := strip_description descr, updated_at := now\<rparr>
               \<and> task_id t' = task_id t \<and> user_id t' = user_id t \<and> created_at t' = created_at t
               \<and> completed t' = completed t
               \<and> tasks db' = map (\<lambda>r. if r = t then t' else r) (tasks db)"
    using t t' same rows by blast
  show "map task_id (tasks db') = map task_id (tasks db)"
       "map user_id (tasks db') = map user_id (tasks db)"
       "map created_at (tasks db') = map created_at (tasks db)"
    using replaced_row_columns [OF rows same(1,2,3)] by simp_all
  show "users db' = users db" using d by (simp add: commit_task_def)
  show "owner_preserved db db'"
    using replaced_row_owner_preserved [OF assms mem rows same(1,2,3)] .
next
  assume u: "toggle_task_completion db now tid owner = Inr (db', t')"
  from toggle_task_result [OF assms u] obtain t where t: "get_task_by_id db tid owner = Some t"
    and t': "t' = t\<lparr>completed := \<not> completed t, updated_at := now\<rparr>"
    and d: "db' = commit_task t' db"
    and rows: "tasks db' = map (\<lambda>r. if r = t then t' else r) (tasks db)"
    by blast
  have same: "task_id t' = task_id t" "user_id t' = user_id t" "created_at t' = created_at t"
             "title t' = title t" "description t' = description t"
    using t' by simp_all
  have mem: "t \<in> set (tasks db)" using get_task_by_id_SomeD [OF t] by simp
  show "\<exists>t. get_task_by_id db tid owner = Some t
               \<and> t' = t\<lparr>completed := \<not> completed t, updated_at := now\<rparr>
               \<and> task_id t' = task_id t \<and> user_id t' = user_id t \<and> created_at t' = created_at t
               \<and> title t' = title t \<and> description t' = description t
               \<and> tasks db' = map (\<lambda>r. if r = t then t' else r) (tasks db)"
    using t t' same rows by blast
  show "map task_id (tasks db') = map task_id (tasks db)"
       "map user_id (tasks db') = map user_id (tasks db)"
       "map created_at (tasks db') = map created_at (tasks db)"
    using replaced_row_columns [OF rows same(1,2,3)] by simp_all
  show "users db' = users db" using d by (simp add: commit_task_def)
  show "owner_preserved db db'"
    using replaced_row_owner_preserved [OF assms mem rows same(1,2,3)] .
next
  assume c: "create_task db now_created now ttl descr owner = (db', t')"
  then show "tasks db' = tasks db @ [t']" by (auto simp: create_task_def Let_def)
  show "owner_preserved db db'" using create_task_owner_preserved [OF assms c] .
next
  assume "delete_task db tid owner = Inr db'"
  then show "owner_preserved db db'" using delete_task_owner_preserved [OF assms] by simp
qed

section \<open>The operations on the example store\<close>

lemma strip_example: "strip (ascii '' Buy oat milk  '') = ascii ''Buy oat milk''"
  by (simp add: strip_def is_space_def ascii_def)

lemma example_update:
  "update_task example_db 300 2 1 (ascii '' Buy oat milk  '') None =
     Inr (example_db\<lparr>tasks := [bobs_task, anns_task\<lparr>title := ascii ''Buy oat milk'', description := None, updated_at := 300\<rparr>]\<rparr>,
          anns_task\<lparr>title := ascii ''Buy oat milk'', description := None, updated_at := 300\<rparr>)"
  by (simp add: update_task_def get_task_by_id_def commit_task_def example_db_def bobs_task_def
        anns_task_def strip_example strip_description_def Let_def)

lemma example_toggle:
  "toggle_task_completion example_db 300 2 1 =
     Inr (example_db\<lparr>tasks := [bobs_task, anns_task\<lparr>completed := True, updated_at := 300\<rparr>]\<rparr>,
          anns_task\<lparr>completed := True, updated_at := 300\<rparr>)"
  by (simp add: toggle_task_completion_def get_task_by_id_def commit_task_def example_db_def bobs_task_def
        anns_task_def Let_def)

theorem update_toggle_frame_witness:
  "tasks_pk example_db
   \<and> update_task example_db 300 2 1 (ascii '' Buy oat milk  '') None =
       Inr (example_db\<lparr>tasks := [bobs_task, anns_task\<lparr>title := ascii ''Buy oat milk'', description := None, updated_at := 300\<rparr>]\<rparr>,
            anns_task\<lparr>title := ascii ''Buy oat milk'', description := None, updated_at := 300\<rparr>)
   \<and> map user_id [bobs_task, anns_task\<lparr>title := ascii ''Buy oat milk'', description := None, updated_at := 300\<rparr>]
       = map user_id (tasks example_db)
   \<and> toggle_task_completion example_db 300 2 1 =
       Inr (example_db\<lparr>tasks := [bobs_task, anns_task\<lparr>completed := True, updated_at := 300\<rparr>]\<rparr>,
            anns_task\<lparr>completed := True, updated_at := 300\<rparr>)
   \<and> map user_id [bobs_task, anns_task\<lparr>completed := True, updated_at := 300\<rparr>]
       = map user_id (tasks example_db)"
proof -
  note frame = update_toggle_frame [OF example_db_pk, of 300 2 1]
  have u: "map user_id [bobs_task, anns_task\<lparr>title := ascii ''Buy oat milk'', description := None, updated_at := 300\<rparr>]
       = map user_id (tasks example_db)"
    using frame [THEN conjunct1, rule_format, OF example_update] by simp
  have t: "map user_id [bobs_task, anns_task\<lparr>completed := True, updated_at := 300\<rparr>]
       = map user_id (tasks example_db)"
    using frame [THEN conjunct2, THEN conjunct1, rule_format, OF example_toggle] by simp
  show ?thesis
    using u t example_db_pk example_update example_toggle by simp
qed

section \<open>Toggle twice\<close>

text \<open>
  C7 (amended). For every task of the caller, two toggles in a row both succeed and
  return the \<open>completed\<close> flag to its original value. Each toggle stores the clock
  reading of that toggle in \<open>updated_at\<close>; so \<open>updated_at\<close> increases strictly at a toggle
  exactly when that reading is later than the stored value. Nothing in the code forces
  an increase.
\<close>

theorem toggle_twice:
  assumes "tasks_pk db" and "t \<in> set (tasks db)"
  shows "\<exists>db1 t1 db2 t2.
           toggle_task_completion db now1 (task_id t) (user_id t) = Inr (db1, t1)
         \<and> toggle_task_completion db1 now2 (task_id t) (user_id t) = Inr (db2, t2)
         \<and> completed t1 = (\<not> completed t) \<and> completed t2 = completed t
         \<and> updated_at t1 = now1 \<and> updated_at t2 = now2
         \<and> (updated_at t < updated_at t1) = (updated_at t < now1)
         \<and> (updated_at t1 < updated_at t2) = (now1 < now2)
         \<and> t2 = t\<lparr>updated_at := now2\<rparr>
         \<and> get_task_by_id db2 (task_id t) (user_id t) = Some t2"
proof -
  let ?t1 = "t\<lparr>completed := \<not> completed t, updated_at := now1\<rparr>"
  let ?t2 = "?t1\<lparr>completed := \<not> completed ?t1, updated_at := now2\<rparr>"
  let ?db1 = "commit_task ?t1 db"
  let ?db2 = "commit_task ?t2 ?db1"
  have g0: "get_task_by_id db (task_id t) (user_id t) = Some t"
    using get_own_task [OF assms] .
  have first: "toggle_task_completion db now1 (task_id t) (user_id t) = Inr (?db1, ?t1)"
    using g0 by (simp add: toggle_task_completion_def Let_def)
  have g1: "get_task_by_id ?db1 (task_id t) (user_id t) = Some ?t1"
    using get_after_commit [OF g0, of ?t1] by simp
  have second: "toggle_task_completion ?db1 now2 (task_id t) (user_id t) = Inr (?db2, ?t2)"
    using g1 by (simp add: toggle_task_completion_def Let_def)
  have g2: "get_task_by_id ?db2 (task_id t) (user_id t) = Some ?t2"
    using get_after_commit [OF g1, of ?t2] by simp
  have restored: "?t2 = t\<lparr>updated_at := now2\<rparr>" by simp
  show ?thesis
    using first second g2 restored by (intro exI [of _ "?db1"] exI [of _ "?t1"] exI [of _ "?db2"] exI [of _ "?t2"]) simp
qed

text \<open>
  C7 as stated fails: a toggle of Ann's task whose clock reading is the stored
  \<open>updated_at\<close> (201) succeeds and leaves \<open>updated_at\<close> where it was.
\<close>

theorem toggle_strict_increase_counterexample:
  "tasks_pk example_db \<and> anns_task \<in> set (tasks example_db)
   \<and> task_id anns_task = 2 \<and> user_id anns_task = 1
   \<and> \<not> isl (toggle_task_completion example_db 201 2 1)
   \<and> \<not> (updated_at anns_task < updated_at (snd (projr (toggle_task_completion example_db 201 2 1))))"
proof -
  have "toggle_task_completion example_db 201 2 1 =
          Inr (example_db\<lparr>tasks := [bobs_task, anns_task\<lparr>completed := True\<rparr>]\<rparr>, anns_task\<lparr>completed := True\<rparr>)"
    by (simp add: toggle_task_completion_def get_task_by_id_def commit_task_def example_db_def
          bobs_task_def anns_task_def Let_def)
  moreover have "anns_task \<in> set (tasks example_db)"
    by (simp add: example_db_def)
  moreover have "task_id anns_task = 2" "user_id anns_task = 1"
    by (simp_all add: anns_task_def)
  ultimately show ?thesis
    using example_db_pk by simp
qed

theorem toggle_twice_witness:
  "tasks_pk example_db \<and> anns_task \<in> set (tasks example_db)
   \<and> (\<exists>db1 t1 db2 t2.
           toggle_task_completion example_db 300 2 1 = Inr (db1, t1)
         \<and> toggle_task_completion db1 400 2 1 = Inr (db2, t2)
         \<and> completed t1 \<and> \<not> completed t2
         \<and> updated_at t1 = 300 \<and> updated_at t2 = 400)"
proof -
  have mem: "anns_task \<in> set (tasks example_db)" by (simp add: example_db_def)
  have ids: "task_id anns_task = 2" "user_id anns_task = 1" "\<not> completed anns_task"
    by (simp_all add: anns_task_def)
  from toggle_twice [OF example_db_pk mem, of 300 400] obtain db1 t1 db2 t2 where
    "toggle_task_completion example_db 300 2 1 = Inr (db1, t1)"
    "toggle_task_completion db1 400 2 1 = Inr (db2, t2)"
    "completed t1" "\<not> completed t2" "updated_at t1 = 300" "updated_at t2 = 400"
    by (auto simp: ids)
  then show ?thesis
    using example_db_pk mem by blast
qed

section \<open>Create\<close>









text \<open>
  The schema on strings that are blank by a whitespace character outside ASCII: the
  no-break space U+00A0 and the ideographic space U+3000.
\<close>

lemma blank_title_unicode:
  "parse_CreateTaskRequest [160] None = Inl RequestValidationError"
  "parse_CreateTaskRequest [12288, 32, 133] (Some [160]) = Inl RequestValidationError"
  by (simp_all add: parse_CreateTaskRequest_def validate_title_def strip_def is_space_def)





section \<open>Signin\<close>

lemma find_None_list_ex: "(find P xs = None) = (\<not> list_ex P xs)"
  by (simp add: find_None_iff_no_row list_ex_iff)

lemma authenticate_user_unknown_email:
  "\<not> list_ex (\<lambda>u. email u = str_lower c em) (users db) \<Longrightarrow>
   authenticate_user c db em password = Inl (AuthenticationError ''Invalid email or password'')"
  by (simp add: authenticate_user_def find_None_list_ex [symmetric])

lemma authenticate_user_wrong_password:
  "find (\<lambda>u. email u = str_lower c em) (users db) = Some u \<Longrightarrow> \<not> verify_password c password (password_hash u) \<Longrightarrow>
   authenticate_user c db em password = Inl (AuthenticationError ''Invalid email or password'')"
  by (simp add: authenticate_user_def)

lemma authenticate_user_failure:
  "authenticate_user c db em password = Inl e \<Longrightarrow> e = AuthenticationError ''Invalid email or password''"
  by (auto simp: authenticate_user_def split: option.splits if_splits)

text \<open>
  C4. A signin with an email that no user has and a signin with the email of a user and
  a password that does not verify fail with the same error: \<open>authenticate_user\<close> raises
  \<open>AuthenticationError\<close> with the same message in both cases, and the route turns both
  into the same 401 with that message as its detail. Every failure of signin is this
  error.
\<close>

theorem signin_failures_identical:
  "(\<not> list_ex (\<lambda>u. email u = str_lower c (signin_email r1)) (users db)
    \<and> find (\<lambda>u. email u = str_lower c (signin_email r2)) (users db) = Some u
    \<and> \<not> verify_password c (signin_password r2) (password_hash u) \<longrightarrow>
      authenticate_user c db (signin_email r1) (signin_password r1) =
        Inl (AuthenticationError ''Invalid email or password'')
    \<and> authenticate_user c db (signin_email r2) (signin_password r2) =
        Inl (AuthenticationError ''Invalid email or password'')
    \<and> signin c cfg db now_access now_refresh r1 = Inl (HTTPException 401 ''Invalid email or password'' [])
    \<and> signin c cfg db now_access' now_refresh' r2 = Inl (HTTPException 401 ''Invalid email or password'' []))
 \<and> (signin c cfg db now_access now_refresh r = Inl e \<longrightarrow>
      e = HTTPException 401 ''Invalid email or password'' [])"
proof (intro conjI impI)
  assume a: "\<not> list_ex (\<lambda>u. email u = str_lower c (signin_email r1)) (users db)
    \<and> find (\<lambda>u. email u = str_lower c (signin_email r2)) (users db) = Some u
    \<and> \<not> verify_password c (signin_password r2) (password_hash u)"
  show 1: "authenticate_user c db (signin_email r1) (signin_password r1) =
        Inl (AuthenticationError ''Invalid email or password'')"
    using a authenticate_user_unknown_email by blast
  show 2: "authenticate_user c db (signin_email r2) (signin_password r2) =
        Inl (AuthenticationError ''Invalid email or password'')"
    using a authenticate_user_wrong_password by blast
  show "signin c cfg db now_access now_refresh r1 = Inl (HTTPException 401 ''Invalid email or password'' [])"
    using 1 by (simp add: signin_def)
  show "signin c cfg db now_access' now_refresh' r2 = Inl (HTTPException 401 ''Invalid email or password'' [])"
    using 2 by (simp add: signin_def)
next
  assume "signin c cfg db now_access now_refresh r = Inl e"
  then show "e = HTTPException 401 ''Invalid email or password'' []"
    using authenticate_user_failure [of c db "signin_email r" "signin_password r"]
    by (auto simp: signin_def split: sum.splits exn.splits)
qed

lemma lower_example:
  "str_lower example_library (ascii ''A@X.com'') = ascii ''a@x.com''"
  "str_lower example_library (ascii ''nobody@x.com'') = ascii ''nobody@x.com''"
  by (simp_all add: example_library_def ascii_lower_def ascii_def)

theorem signin_failures_identical_witness:
  "\<not> list_ex (\<lambda>u. email u = str_lower example_library (ascii ''nobody@x.com'')) (users example_db)
   \<and> find (\<lambda>u. email u = str_lower example_library (ascii ''A@X.com'')) (users example_db) = Some ann
   \<and> \<not> verify_password example_library (ascii ''wrong'') (password_hash ann)
   \<and> signin example_library example_cfg example_db 1000 1001 \<lparr>signin_email = ascii ''nobody@x.com'', signin_password = ascii ''password123''\<rparr>
       = Inl (HTTPException 401 ''Invalid email or password'' [])
   \<and> signin example_library example_cfg example_db 1000 1001 \<lparr>signin_email = ascii ''A@X.com'', signin_password = ascii ''wrong''\<rparr>
       = Inl (HTTPException 401 ''Invalid email or password'' [])"
proof -
  have 1: "\<not> list_ex (\<lambda>u. email u = str_lower example_library (ascii ''nobody@x.com'')) (users example_db)"
    by (simp only: lower_example) (simp add: example_db_def ann_def bob_def ascii_def)
  have 2: "find (\<lambda>u. email u = str_lower example_library (ascii ''A@X.com'')) (users example_db) = Some ann"
    by (simp only: lower_example) (simp add: example_db_def ann_def bob_def ascii_def)
  have 3: "\<not> verify_password example_library (ascii ''wrong'') (password_hash ann)"
    by (simp add: verify_password_def example_library_def ann_def ascii_def)
  show ?thesis
    using signin_failures_identical [where c = example_library and cfg = example_cfg and db = example_db
        and ?r1.0 = "\<lparr>signin_email = ascii ''nobody@x.com'', signin_password = ascii ''password123''\<rparr>"
        and ?r2.0 = "\<lparr>signin_email = ascii ''A@X.com'', signin_password = ascii ''wrong''\<rparr>"
        and u = ann and now_access = 1000 and now_refresh = 1001 and now_access' = 1000
        and now_refresh' = 1001, THEN conjunct1] 1 2 3
    by simp
qed

section \<open>Signup\<close>

lemma insert_user_taken:
  "list_ex (\<lambda>u. email u = em) (users db) \<Longrightarrow> insert_user db em h nm nc nu = Inl IntegrityError"
  by (simp add: insert_user_def)

lemma insert_user_free:
  "\<not> list_ex (\<lambda>u. email u = em) (users db) \<Longrightarrow>
   insert_user db em h nm nc nu =
     Inr (db\<lparr>users := users db @ [\<lparr>uid = users_id_seq db, email = em, password_hash = h, name = nm,
                                      user_created_at = nc, user_updated_at = nu\<rparr>],
             users_id_seq := users_id_seq db + 1\<rparr>,
          \<lparr>uid = users_id_seq db, email = em, password_hash = h, name = nm,
            user_created_at = nc, user_updated_at = nu\<rparr>)"
  by (simp add: insert_user_def Let_def)

lemma create_user_conflict:
  "list_ex (\<lambda>u. email u = str_lower c em) (users db) \<or> list_ex (\<lambda>u. email u = str_lower c em) (users db_commit) \<Longrightarrow>
   create_user c db db_commit nc nu em password nm = Inl (ConflictError ''Email already registered'')"
proof (cases "find (\<lambda>u. email u = str_lower c em) (users db)")
  case None
  assume "list_ex (\<lambda>u. email u = str_lower c em) (users db) \<or> list_ex (\<lambda>u. email u = str_lower c em) (users db_commit)"
  then have "list_ex (\<lambda>u. email u = str_lower c em) (users db_commit)"
    using None by (simp add: find_None_list_ex)
  then show ?thesis
    using None by (simp add: create_user_def insert_user_taken Let_def)
next
  case (Some existing_user)
  then show ?thesis by (simp add: create_user_def)
qed

lemma create_user_success:
  "\<not> list_ex (\<lambda>u. email u = str_lower c em) (users db) \<Longrightarrow> \<not> list_ex (\<lambda>u. email u = str_lower c em) (users db_commit) \<Longrightarrow>
   create_user c db db_commit nc nu em password nm =
     Inr (db_commit\<lparr>users := users db_commit @ [\<lparr>uid = users_id_seq db_commit, email = str_lower c em,
                                                    password_hash = hash_password c password, name = strip nm,
                                                    user_created_at = nc, user_updated_at = nu\<rparr>],
                    users_id_seq := users_id_seq db_commit + 1\<rparr>,
          \<lparr>uid = users_id_seq db_commit, email = str_lower c em, password_hash = hash_password c password,
            name = strip nm, user_created_at = nc, user_updated_at = nu\<rparr>)"
  by (simp add: create_user_def find_None_list_ex [THEN iffD2] insert_user_free Let_def)

text \<open>
  C5. Signup compares and stores the lowercased email. It fails, with the 409 made from
  \<open>ConflictError\<close>, exactly when a user with the lowercased email exists: in the store as
  the existence check reads it, or in the store as the commit finds it (the unique index
  raises \<open>IntegrityError\<close>, which \<open>create_user\<close> turns into the same \<open>ConflictError\<close>).
  Otherwise it succeeds: the new row, with the lowercased email, is appended to the
  users, and the response holds the user and an access and a refresh token made for
  the new id.
\<close>

theorem signup_conflict_iff:
  "(list_ex (\<lambda>u. email u = str_lower c (signup_email request)) (users db)
      \<or> list_ex (\<lambda>u. email u = str_lower c (signup_email request)) (users db_commit) \<longrightarrow>
        create_user c db db_commit now_created now_updated
            (signup_email request) (signup_password request) (signup_name request)
          = Inl (ConflictError ''Email already registered'')
      \<and> signup c cfg db db_commit now_created now_updated now_access now_refresh request
          = Inl (HTTPException 409 ''Email already registered'' []))
 \<and> (\<not> list_ex (\<lambda>u. email u = str_lower c (signup_email request)) (users db)
      \<and> \<not> list_ex (\<lambda>u. email u = str_lower c (signup_email request)) (users db_commit) \<longrightarrow>
        (\<exists>u. u = \<lparr>uid = users_id_seq db_commit, email = str_lower c (signup_email request),
                   password_hash = hash_password c (signup_password request),
                   name = strip (signup_name request),
                   user_created_at = now_created, user_updated_at = now_updated\<rparr>
            \<and> signup c cfg db db_commit now_created now_updated now_access now_refresh request
                = Inr (db_commit\<lparr>users := users db_commit @ [u], users_id_seq := users_id_seq db_commit + 1\<rparr>,
                       \<lparr>resp_user = \<lparr>resp_id = uid u, resp_email = str_lower c (signup_email request),
                                      resp_name = name u, resp_created_at = now_created\<rparr>,
                         access_token = create_access_token c cfg now_access [''user_id'' \<mapsto> uid u] None,
                         refresh_token = create_refresh_token c cfg now_refresh [''user_id'' \<mapsto> uid u],
                         token_type = ''bearer''\<rparr>)))
 \<and> ((\<exists>e. signup c cfg db db_commit now_created now_updated now_access now_refresh request = Inl e)
      = (list_ex (\<lambda>u. email u = str_lower c (signup_email request)) (users db)
          \<or> list_ex (\<lambda>u. email u = str_lower c (signup_email request)) (users db_commit)))"
proof -
  let ?taken = "\<lambda>d. list_ex (\<lambda>u. email u = str_lower c (signup_email request)) (users d)"
  let ?signup = "signup c cfg db db_commit now_created now_updated now_access now_refresh request"
  have conflict: "?signup = Inl (HTTPException 409 ''Email already registered'' [])"
      and service: "create_user c db db_commit now_created now_updated
            (signup_email request) (signup_password request) (signup_name request)
          = Inl (ConflictError ''Email already registered'')"
    if "?taken db \<or> ?taken db_commit"
    using create_user_conflict [OF that] by (simp_all add: signup_def)
  have success: "\<exists>u. u = \<lparr>uid = users_id_seq db_commit, email = str_lower c (signup_email request),
                   password_hash = hash_password c (signup_password request),
                   name = strip (signup_name request),
                   user_created_at = now_created, user_updated_at = now_updated\<rparr>
            \<and> ?signup
                = Inr (db_commit\<lparr>users := users db_commit @ [u], users_id_seq := users_id_seq db_commit + 1\<rparr>,
                       \<lparr>resp_user = \<lparr>resp_id = uid u, resp_email = str_lower c (signup_email request),
                                      resp_name = name u, resp_created_at = now_created\<rparr>,
                         access_token = create_access_token c cfg now_access [''user_id'' \<mapsto> uid u] None,
                         refresh_token = create_refresh_token c cfg now_refresh [''user_id'' \<mapsto> uid u],
                         token_type = ''bearer''\<rparr>)"
    if "\<not> ?taken db" "\<not> ?taken db_commit"
    using create_user_success [OF that] by (simp add: signup_def auth_response_def)
  have iff: "(\<exists>e. ?signup = Inl e) = (?taken db \<or> ?taken db_commit)"
  proof (cases "?taken db \<or> ?taken db_commit")
    case True
    then show ?thesis using conflict by simp
  next
    case False
    then have "\<not> ?taken db" "\<not> ?taken db_commit" by simp_all
    from success [OF this] obtain r where "?signup = Inr r" by blast
    then show ?thesis using False by simp
  qed
  show ?thesis
    using conflict service success iff by blast
qed

text \<open>
  A signup that loses the race: the check reads a store without Carol, the commit finds
  her row.
\<close>

lemma signup_race_example:
  "signup c cfg empty_db (empty_db\<lparr>users := [u\<lparr>email := str_lower c (ascii ''Carol@X.com'')\<rparr>]\<rparr>) 30 31 32 33
     \<lparr>signup_email = ascii ''Carol@X.com'', signup_password = ascii ''password123'', signup_name = ascii ''Carol''\<rparr>
   = Inl (HTTPException 409 ''Email already registered'' [])"
  by (simp add: signup_def create_user_conflict)

lemma lower_example_carol: "str_lower example_library (ascii ''Carol@X.com'') = ascii ''carol@x.com''"
  by (simp add: example_library_def ascii_lower_def ascii_def)

theorem signup_conflict_iff_witness:
  "list_ex (\<lambda>u. email u = str_lower example_library (ascii ''A@X.com'')) (users example_db)
   \<and> signup example_library example_cfg example_db example_db 30 31 32 33
        \<lparr>signup_email = ascii ''A@X.com'', signup_password = ascii ''password123'', signup_name = ascii ''Ann''\<rparr>
       = Inl (HTTPException 409 ''Email already registered'' [])
   \<and> \<not> list_ex (\<lambda>u. email u = str_lower example_library (ascii ''Carol@X.com'')) (users example_db)
   \<and> \<not> isl (signup example_library example_cfg example_db example_db 30 31 32 33
        \<lparr>signup_email = ascii ''Carol@X.com'', signup_password = ascii ''password123'', signup_name = ascii ''Carol''\<rparr>)
   \<and> resp_email (resp_user (snd (projr (signup example_library example_cfg example_db example_db 30 31 32 33
        \<lparr>signup_email = ascii ''Carol@X.com'', signup_password = ascii ''password123'', signup_name = ascii ''Carol''\<rparr>))))
       = ascii ''carol@x.com''"
proof -
  let ?ann = "\<lparr>signup_email = ascii ''A@X.com'', signup_password = ascii ''password123'', signup_name = ascii ''Ann''\<rparr>"
  let ?carol = "\<lparr>signup_email = ascii ''Carol@X.com'', signup_password = ascii ''password123'', signup_name = ascii ''Carol''\<rparr>"
  have taken: "list_ex (\<lambda>u. email u = str_lower example_library (ascii ''A@X.com'')) (users example_db)"
    by (simp only: lower_example) (simp add: example_db_def ann_def bob_def ascii_def)
  have free: "\<not> list_ex (\<lambda>u. email u = str_lower example_library (ascii ''Carol@X.com'')) (users example_db)"
    by (simp only: lower_example_carol) (simp add: example_db_def ann_def bob_def ascii_def)
  have 1: "signup example_library example_cfg example_db example_db 30 31 32 33 ?ann
       = Inl (HTTPException 409 ''Email already registered'' [])"
    using signup_conflict_iff [where request = ?ann and db = example_db and db_commit = example_db
        and c = example_library and cfg = example_cfg and now_created = 30 and now_updated = 31
        and now_access = 32 and now_refresh = 33, THEN conjunct1] taken by simp
  have 2: "\<not> isl (signup example_library example_cfg example_db example_db 30 31 32 33 ?carol)
     \<and> resp_email (resp_user (snd (projr (signup example_library example_cfg example_db example_db 30 31 32 33 ?carol))))
       = ascii ''carol@x.com''"
    using signup_conflict_iff [where request = ?carol and db = example_db and db_commit = example_db
        and c = example_library and cfg = example_cfg and now_created = 30 and now_updated = 31
        and now_access = 32 and now_refresh = 33, THEN conjunct2, THEN conjunct1] free
    by (auto simp: lower_example_carol)
  show ?thesis
    using taken free 1 2 by simp
qed

section \<open>Issuing and verifying tokens\<close>

lemma verify_token_Malformed: "verify_token c cfg now (Malformed s) = Inr None"
  by (simp add: verify_token_def jwt_decode_def)

lemma verify_token_Signed:
  "verify_token c cfg now (Signed alg claims sig) =
     Inr (if alg = ALGORITHM cfg \<and> sig = hmac c alg (BETTER_AUTH_SECRET cfg) claims
             \<and> (\<exists>e. claims ''exp'' = Some e \<and> now < e)
          then Some claims else None)"
  by (auto simp: verify_token_def jwt_decode_def split: option.splits)

lemma verify_token_never_raises: "\<exists>r. verify_token c cfg now token = Inr r"
  by (cases token) (simp_all add: verify_token_Malformed verify_token_Signed)

lemma verify_token_SomeD:
  "verify_token c cfg now token = Inr (Some claims) \<Longrightarrow>
   \<exists>sig e. token = Signed (ALGORITHM cfg) claims sig
         \<and> sig = hmac c (ALGORITHM cfg) (BETTER_AUTH_SECRET cfg) claims
         \<and> claims ''exp'' = Some e \<and> now < e"
  by (cases token) (auto simp: verify_token_Malformed verify_token_Signed split: if_splits)

lemma verify_issued:
  "verify_token c cfg t (jwt_encode c (data(''exp'' \<mapsto> e)) (BETTER_AUTH_SECRET cfg) (ALGORITHM cfg)) =
     Inr (if t < e then Some (data(''exp'' \<mapsto> e)) else None)"
  by (simp add: jwt_encode_def verify_token_Signed)

lemma get_current_user_cases:
  "get_current_user c cfg now token =
     (case verify_token c cfg now token of
        Inr None \<Rightarrow> Inl (HTTPException 401 ''Invalid or expired token'' [(''WWW-Authenticate'', ''Bearer'')])
      | Inr (Some claims) \<Rightarrow>
          (case claims ''user_id'' of
             None \<Rightarrow> Inl (HTTPException 401 ''Invalid token payload'' [(''WWW-Authenticate'', ''Bearer'')])
           | Some u \<Rightarrow> Inr u)
      | Inl e \<Rightarrow> Inl e)"
  by (simp add: get_current_user_def split: sum.splits option.splits)

text \<open>
  C2. The access token issued for subject \<open>u\<close> at clock reading \<open>now\<close> carries the expiry
  \<open>now\<close> plus the configured lifetime. Verified under the same configuration at a time
  \<open>t\<close>, it gives back the claims with subject \<open>u\<close> (and \<open>get_current_user\<close> gives \<open>u\<close>)
  when \<open>t\<close> is strictly before the expiry, and the absent result (answered with 401) when
  \<open>t\<close> is the expiry or later.
\<close>

theorem access_token_roundtrip:
  "verify_token c cfg t (create_access_token c cfg now [''user_id'' \<mapsto> u] None) =
     Inr (if t < now + timedelta_minutes (ACCESS_TOKEN_EXPIRE_MINUTES cfg)
          then Some [''user_id'' \<mapsto> u, ''exp'' \<mapsto> now + timedelta_minutes (ACCESS_TOKEN_EXPIRE_MINUTES cfg)]
          else None)
 \<and> get_current_user c cfg t (create_access_token c cfg now [''user_id'' \<mapsto> u] None) =
     (if t < now + timedelta_minutes (ACCESS_TOKEN_EXPIRE_MINUTES cfg) then Inr u
      else Inl (HTTPException 401 ''Invalid or expired token'' [(''WWW-Authenticate'', ''Bearer'')]))
 \<and> jwt_claims (create_access_token c cfg now [''user_id'' \<mapsto> u] None) ''exp''
     = Some (now + timedelta_minutes (ACCESS_TOKEN_EXPIRE_MINUTES cfg))"
proof -
  let ?e = "now + timedelta_minutes (ACCESS_TOKEN_EXPIRE_MINUTES cfg)"
  have tok: "create_access_token c cfg now [''user_id'' \<mapsto> u] None =
        jwt_encode c ([''user_id'' \<mapsto> u](''exp'' \<mapsto> ?e)) (BETTER_AUTH_SECRET cfg) (ALGORITHM cfg)"
    by (simp add: create_access_token_def)
  have v: "verify_token c cfg t (create_access_token c cfg now [''user_id'' \<mapsto> u] None) =
     Inr (if t < ?e then Some [''user_id'' \<mapsto> u, ''exp'' \<mapsto> ?e] else None)"
    unfolding tok by (rule verify_issued)
  have g: "get_current_user c cfg t (create_access_token c cfg now [''user_id'' \<mapsto> u] None) =
     (if t < ?e then Inr u
      else Inl (HTTPException 401 ''Invalid or expired token'' [(''WWW-Authenticate'', ''Bearer'')]))"
    unfolding get_current_user_cases v by simp
  have "jwt_claims (create_access_token c cfg now [''user_id'' \<mapsto> u] None) ''exp'' = Some ?e"
    unfolding tok by (simp add: jwt_encode_def)
  with v g show ?thesis by simp
qed

theorem access_token_roundtrip_witness:
  "get_current_user example_library example_cfg 899999999 (create_access_token example_library example_cfg 0 [''user_id'' \<mapsto> 7] None) = Inr 7
 \<and> verify_token example_library example_cfg 900000000 (create_access_token example_library example_cfg 0 [''user_id'' \<mapsto> 7] None) = Inr None
 \<and> get_current_user example_library example_cfg 900000000 (create_access_token example_library example_cfg 0 [''user_id'' \<mapsto> 7] None)
     = Inl (HTTPException 401 ''Invalid or expired token'' [(''WWW-Authenticate'', ''Bearer'')])"
proof -
  have ttl: "0 + timedelta_minutes (ACCESS_TOKEN_EXPIRE_MINUTES example_cfg) = 900000000"
    by (simp add: timedelta_minutes_def example_cfg_def)
  show ?thesis
    using access_token_roundtrip [of example_library example_cfg 899999999 0 7]
          access_token_roundtrip [of example_library example_cfg 900000000 0 7]
    unfolding ttl by simp
qed

lemma verify_token_Some_iff:
  "(verify_token c cfg now token = Inr (Some claims)) =
   (\<exists>sig e. token = Signed (ALGORITHM cfg) claims sig
          \<and> sig = hmac c (ALGORITHM cfg) (BETTER_AUTH_SECRET cfg) claims
          \<and> claims ''exp'' = Some e \<and> now < e)"
proof
  assume "verify_token c cfg now token = Inr (Some claims)"
  then show "\<exists>sig e. token = Signed (ALGORITHM cfg) claims sig
          \<and> sig = hmac c (ALGORITHM cfg) (BETTER_AUTH_SECRET cfg) claims
          \<and> claims ''exp'' = Some e \<and> now < e"
    by (rule verify_token_SomeD)
next
  assume "\<exists>sig e. token = Signed (ALGORITHM cfg) claims sig
          \<and> sig = hmac c (ALGORITHM cfg) (BETTER_AUTH_SECRET cfg) claims
          \<and> claims ''exp'' = Some e \<and> now < e"
  then show "verify_token c cfg now token = Inr (Some claims)"
    by (auto simp: verify_token_Signed)
qed

lemma get_current_user_Inr_iff:
  "(get_current_user c cfg now token = Inr u) =
   (\<exists>claims. verify_token c cfg now token = Inr (Some claims) \<and> claims ''user_id'' = Some u)"
  unfolding get_current_user_cases by (auto split: sum.splits option.splits)

lemma get_current_user_raises_401:
  "(\<exists>u. get_current_user c cfg now token = Inr u)
   \<or> (\<exists>d. get_current_user c cfg now token = Inl (HTTPException 401 d [(''WWW-Authenticate'', ''Bearer'')]))"
  using verify_token_never_raises [of c cfg now token]
  unfolding get_current_user_cases by (auto split: sum.splits option.splits)

text \<open>
  C3 (amended). For every token, \<open>verify_token\<close> returns and never raises. It returns the
  claims exactly when the token has the configured algorithm, its signature is the MAC
  of its claims under the secret and its expiry is later than now; a malformed token, a
  signature mismatch and an expired token give the absent result \<open>None\<close>.
  \<open>verify_token\<close> does not look at the subject: a token that passes both checks and
  holds no subject claim comes back as a valid result, and it is \<open>get_current_user\<close>
  that rejects it, by raising a 401. \<open>get_current_user\<close> returns a subject exactly when
  both checks pass and the claims hold it; in every other case it raises a 401.
\<close>

theorem verify_token_outcomes:
  "(\<exists>r. verify_token c cfg now token = Inr r)
 \<and> ((verify_token c cfg now token = Inr (Some claims)) =
      (\<exists>sig e. token = Signed (ALGORITHM cfg) claims sig
             \<and> sig = hmac c (ALGORITHM cfg) (BETTER_AUTH_SECRET cfg) claims
             \<and> claims ''exp'' = Some e \<and> now < e))
 \<and> ((get_current_user c cfg now token = Inr u) =
      (\<exists>claims sig e. token = Signed (ALGORITHM cfg) claims sig
             \<and> sig = hmac c (ALGORITHM cfg) (BETTER_AUTH_SECRET cfg) claims
             \<and> claims ''exp'' = Some e \<and> now < e \<and> claims ''user_id'' = Some u))
 \<and> (token = Malformed s \<longrightarrow>
      verify_token c cfg now token = Inr None
      \<and> get_current_user c cfg now token =
          Inl (HTTPException 401 ''Invalid or expired token'' [(''WWW-Authenticate'', ''Bearer'')]))
 \<and> (token = Signed alg claims sig \<and> sig \<noteq> hmac c alg (BETTER_AUTH_SECRET cfg) claims \<longrightarrow>
      verify_token c cfg now token = Inr None
      \<and> get_current_user c cfg now token =
          Inl (HTTPException 401 ''Invalid or expired token'' [(''WWW-Authenticate'', ''Bearer'')]))
 \<and> (token = Signed alg claims sig \<and> claims ''exp'' = Some e \<and> e \<le> now \<longrightarrow>
      verify_token c cfg now token = Inr None
      \<and> get_current_user c cfg now token =
          Inl (HTTPException 401 ''Invalid or expired token'' [(''WWW-Authenticate'', ''Bearer'')]))
 \<and> (token = Signed (ALGORITHM cfg) claims (hmac c (ALGORITHM cfg) (BETTER_AUTH_SECRET cfg) claims)
      \<and> claims ''exp'' = Some e \<and> now < e \<and> claims ''user_id'' = None \<longrightarrow>
      verify_token c cfg now token = Inr (Some claims)
      \<and> get_current_user c cfg now token =
          Inl (HTTPException 401 ''Invalid token payload'' [(''WWW-Authenticate'', ''Bearer'')]))
 \<and> ((\<exists>u. get_current_user c cfg now token = Inr u)
      \<or> (\<exists>d. get_current_user c cfg now token = Inl (HTTPException 401 d [(''WWW-Authenticate'', ''Bearer'')])))"
proof (intro conjI impI)
  show "\<exists>r. verify_token c cfg now token = Inr r"
    by (rule verify_token_never_raises)
next
  show "(verify_token c cfg now token = Inr (Some claims)) =
      (\<exists>sig e. token = Signed (ALGORITHM cfg) claims sig
             \<and> sig = hmac c (ALGORITHM cfg) (BETTER_AUTH_SECRET cfg) claims
             \<and> claims ''exp'' = Some e \<and> now < e)"
    by (rule verify_token_Some_iff)
next
  show "(get_current_user c cfg now token = Inr u) =
      (\<exists>claims sig e. token = Signed (ALGORITHM cfg) claims sig
             \<and> sig = hmac c (ALGORITHM cfg) (BETTER_AUTH_SECRET cfg) claims
             \<and> claims ''exp'' = Some e \<and> now < e \<and> claims ''user_id'' = Some u)"
    unfolding get_current_user_Inr_iff verify_token_Some_iff by blast
next
  assume "token = Malformed s"
  then show "verify_token c cfg now token = Inr None"
    "get_current_user c cfg now token =
          Inl (HTTPException 401 ''Invalid or expired token'' [(''WWW-Authenticate'', ''Bearer'')])"
    unfolding get_current_user_cases by (simp_all add: verify_token_Malformed)
next
  assume "token = Signed alg claims sig \<and> sig \<noteq> hmac c alg (BETTER_AUTH_SECRET cfg) claims"
  then show "verify_token c cfg now token = Inr None"
    "get_current_user c cfg now token =
          Inl (HTTPException 401 ''Invalid or expired token'' [(''WWW-Authenticate'', ''Bearer'')])"
    unfolding get_current_user_cases by (simp_all add: verify_token_Signed)
next
  assume "token = Signed alg claims sig \<and> claims ''exp'' = Some e \<and> e \<le> now"
  then show "verify_token c cfg now token = Inr None"
    "get_current_user c cfg now token =
          Inl (HTTPException 401 ''Invalid or expired token'' [(''WWW-Authenticate'', ''Bearer'')])"
    unfolding get_current_user_cases by (simp_all add: verify_token_Signed)
next
  assume a: "token = Signed (ALGORITHM cfg) claims (hmac c (ALGORITHM cfg) (BETTER_AUTH_SECRET cfg) claims)
      \<and> claims ''exp'' = Some e \<and> now < e \<and> claims ''user_id'' = None"
  then show v: "verify_token c cfg now token = Inr (Some claims)"
    by (simp add: verify_token_Signed)
  show "get_current_user c cfg now token =
          Inl (HTTPException 401 ''Invalid token payload'' [(''WWW-Authenticate'', ''Bearer'')])"
    unfolding get_current_user_cases v using a by simp
next
  show "(\<exists>u. get_current_user c cfg now token = Inr u)
      \<or> (\<exists>d. get_current_user c cfg now token = Inl (HTTPException 401 d [(''WWW-Authenticate'', ''Bearer'')]))"
    by (rule get_current_user_raises_401)
qed

lemma example_hmac: "hmac example_library ''HS256'' (BETTER_AUTH_SECRET example_cfg) claims = ''HS256:0123456789abcdef0123456789abcdef''"
  by (simp add: example_library_def example_cfg_def)

text \<open>
  C3 as stated fails for a missing subject claim: a correctly signed, unexpired token
  whose claims hold only the expiry is returned by \<open>verify_token\<close> as a valid result, not
  as the absent one, and the only rejection is the exception that \<open>get_current_user\<close>
  raises.
\<close>

theorem verify_token_missing_subject_counterexample:
  "[''exp'' \<mapsto> (900::int)] ''user_id'' = None
 \<and> hmac example_library (ALGORITHM example_cfg) (BETTER_AUTH_SECRET example_cfg) [''exp'' \<mapsto> 900]
     = ''HS256:0123456789abcdef0123456789abcdef''
 \<and> verify_token example_library example_cfg 10
      (Signed ''HS256'' [''exp'' \<mapsto> 900] ''HS256:0123456789abcdef0123456789abcdef'')
     = Inr (Some [''exp'' \<mapsto> 900])
 \<and> get_current_user example_library example_cfg 10
      (Signed ''HS256'' [''exp'' \<mapsto> 900] ''HS256:0123456789abcdef0123456789abcdef'')
     = Inl (HTTPException 401 ''Invalid token payload'' [(''WWW-Authenticate'', ''Bearer'')])"
proof -
  have alg: "ALGORITHM example_cfg = ''HS256''" by (simp add: example_cfg_def)
  have v: "verify_token example_library example_cfg 10
      (Signed ''HS256'' [''exp'' \<mapsto> 900] ''HS256:0123456789abcdef0123456789abcdef'')
     = Inr (Some [''exp'' \<mapsto> 900])"
    by (simp add: verify_token_Signed alg example_hmac)
  have "get_current_user example_library example_cfg 10
      (Signed ''HS256'' [''exp'' \<mapsto> 900] ''HS256:0123456789abcdef0123456789abcdef'')
     = Inl (HTTPException 401 ''Invalid token payload'' [(''WWW-Authenticate'', ''Bearer'')])"
    unfolding get_current_user_cases v by simp
  with v show ?thesis
    by (simp add: alg example_hmac)
qed

theorem verify_token_outcomes_witness:
  "verify_token example_library example_cfg 10 (Malformed (ascii ''not.a.token'')) = Inr None
 \<and> ''forged'' \<noteq> hmac example_library ''HS256'' (BETTER_AUTH_SECRET example_cfg) [''user_id'' \<mapsto> 7, ''exp'' \<mapsto> 900]
 \<and> verify_token example_library example_cfg 10 (Signed ''HS256'' [''user_id'' \<mapsto> 7, ''exp'' \<mapsto> 900] ''forged'') = Inr None
 \<and> verify_token example_library example_cfg 900
      (Signed ''HS256'' [''user_id'' \<mapsto> 7, ''exp'' \<mapsto> 900] ''HS256:0123456789abcdef0123456789abcdef'') = Inr None
 \<and> get_current_user example_library example_cfg 10
      (Signed ''HS256'' [''user_id'' \<mapsto> 7, ''exp'' \<mapsto> 900] ''HS256:0123456789abcdef0123456789abcdef'') = Inr 7
 \<and> verify_token example_library example_cfg 10
      (Signed ''HS256'' [''exp'' \<mapsto> 900] ''HS256:0123456789abcdef0123456789abcdef'')
       = Inr (Some [''exp'' \<mapsto> 900])
 \<and> get_current_user example_library example_cfg 10
      (Signed ''HS256'' [''exp'' \<mapsto> 900] ''HS256:0123456789abcdef0123456789abcdef'')
       = Inl (HTTPException 401 ''Invalid token payload'' [(''WWW-Authenticate'', ''Bearer'')])"
proof -
  let ?sig = "''HS256:0123456789abcdef0123456789abcdef''"
  let ?claims = "[''user_id'' \<mapsto> 7, ''exp'' \<mapsto> (900::int)]"
  let ?bare = "[''exp'' \<mapsto> (900::int)]"
  have alg: "ALGORITHM example_cfg = ''HS256''" by (simp add: example_cfg_def)
  note outcomes = verify_token_outcomes [where c = example_library and cfg = example_cfg]
  have 1: "verify_token example_library example_cfg 10 (Malformed (ascii ''not.a.token'')) = Inr None"
    using outcomes [where token = "Malformed (ascii ''not.a.token'')" and s = "ascii ''not.a.token''" and now = 10
       , THEN conjunct2, THEN conjunct2, THEN conjunct2, THEN conjunct1, rule_format, OF refl]
    by simp
  have f: "''forged'' \<noteq> hmac example_library ''HS256'' (BETTER_AUTH_SECRET example_cfg) ?claims"
    by (simp add: example_hmac)
  have 2: "verify_token example_library example_cfg 10 (Signed ''HS256'' ?claims ''forged'') = Inr None"
    using outcomes [where token = "Signed ''HS256'' ?claims ''forged''" and alg = "''HS256''"
        and claims = ?claims and sig = "''forged''" and now = 10
       , THEN conjunct2, THEN conjunct2, THEN conjunct2, THEN conjunct2, THEN conjunct1, rule_format, OF conjI, OF refl f]
    by simp
  have 3: "verify_token example_library example_cfg 900 (Signed ''HS256'' ?claims ?sig) = Inr None"
    using outcomes [where token = "Signed ''HS256'' ?claims ?sig" and alg = "''HS256''"
        and claims = ?claims and sig = ?sig and e = 900 and now = 900
       , THEN conjunct2, THEN conjunct2, THEN conjunct2, THEN conjunct2, THEN conjunct2, THEN conjunct1, rule_format]
    by simp
  have 4: "get_current_user example_library example_cfg 10 (Signed ''HS256'' ?claims ?sig) = Inr 7"
    using outcomes [where token = "Signed ''HS256'' ?claims ?sig" and u = 7 and now = 10
       , THEN conjunct2, THEN conjunct2, THEN conjunct1, THEN iffD2, OF exI [of _ ?claims], OF exI [of _ ?sig], OF exI [of _ 900]]
    by (simp add: alg example_hmac)
  have 5: "verify_token example_library example_cfg 10 (Signed ''HS256'' ?bare ?sig) = Inr (Some ?bare)
     \<and> get_current_user example_library example_cfg 10 (Signed ''HS256'' ?bare ?sig)
       = Inl (HTTPException 401 ''Invalid token payload'' [(''WWW-Authenticate'', ''Bearer'')])"
    using outcomes [where token = "Signed ''HS256'' ?bare ?sig"
        and claims = ?bare and e = 900 and now = 10
       , THEN conjunct2, THEN conjunct2, THEN conjunct2, THEN conjunct2, THEN conjunct2, THEN conjunct2, THEN conjunct1, rule_format]
    by (simp add: alg example_hmac)
  show ?thesis
    using 1 f 2 3 4 5 by simp
qed

section \<open>Refresh\<close>

lemma refresh_cases:
  "refresh c cfg now_verify now_issue token =
     (case verify_token c cfg now_verify token of
        Inr None \<Rightarrow> Inl (HTTPException 401 ''Invalid or expired refresh token'' [])
      | Inr (Some claims) \<Rightarrow>
          (case claims ''user_id'' of
             None \<Rightarrow> Inl (HTTPException 401 ''Invalid token payload'' [])
           | Some u \<Rightarrow> Inr \<lparr>new_access_token = create_access_token c cfg now_issue [''user_id'' \<mapsto> u] None,
                             new_token_type = ''bearer''\<rparr>)
      | Inl e \<Rightarrow> Inl e)"
  by (simp add: refresh_def split: sum.splits option.splits)

lemma verify_token_again:
  assumes "verify_token c cfg now token = Inr (Some claims)" and "claims ''exp'' = Some e" and "t < e"
  shows "verify_token c cfg t token = Inr (Some claims)"
proof -
  from verify_token_SomeD [OF assms(1)] obtain sig where
    "token = Signed (ALGORITHM cfg) claims sig" "sig = hmac c (ALGORITHM cfg) (BETTER_AUTH_SECRET cfg) claims"
    by blast
  then show ?thesis using assms(2,3) by (simp add: verify_token_Signed)
qed

text \<open>
  C9. \<open>refresh\<close> succeeds exactly when the presented token verifies and its claims hold
  a subject. It then returns a new access token made for that subject: the token carries
  the subject and verifies to it until its own expiry. In every other case \<open>refresh\<close>
  fails with a 401. The response holds no refresh token, and the presented token is
  still good afterwards: at any time before its expiry it verifies to the same claims
  and \<open>refresh\<close> succeeds with it again.
\<close>

theorem refresh_outcomes:
  "(verify_token c cfg now_verify token = Inr (Some claims) \<and> claims ''user_id'' = Some u \<longrightarrow>
      refresh c cfg now_verify now_issue token =
        Inr \<lparr>new_access_token = create_access_token c cfg now_issue [''user_id'' \<mapsto> u] None,
             new_token_type = ''bearer''\<rparr>
      \<and> jwt_claims (create_access_token c cfg now_issue [''user_id'' \<mapsto> u] None) ''user_id'' = Some u
      \<and> (\<forall>t. t < now_issue + timedelta_minutes (ACCESS_TOKEN_EXPIRE_MINUTES cfg) \<longrightarrow>
             get_current_user c cfg t (create_access_token c cfg now_issue [''user_id'' \<mapsto> u] None) = Inr u)
      \<and> (\<forall>t t' e. claims ''exp'' = Some e \<and> t < e \<longrightarrow>
             verify_token c cfg t token = Inr (Some claims)
           \<and> refresh c cfg t t' token =
               Inr \<lparr>new_access_token = create_access_token c cfg t' [''user_id'' \<mapsto> u] None,
                    new_token_type = ''bearer''\<rparr>))
 \<and> ((\<exists>r. refresh c cfg now_verify now_issue token = Inr r)
      = (\<exists>claims u. verify_token c cfg now_verify token = Inr (Some claims) \<and> claims ''user_id'' = Some u))
 \<and> (\<not> (\<exists>claims u. verify_token c cfg now_verify token = Inr (Some claims) \<and> claims ''user_id'' = Some u) \<longrightarrow>
      (\<exists>d. refresh c cfg now_verify now_issue token = Inl (HTTPException 401 d [])))"
proof (intro conjI impI allI)
  assume a: "verify_token c cfg now_verify token = Inr (Some claims) \<and> claims ''user_id'' = Some u"
  then show "refresh c cfg now_verify now_issue token =
        Inr \<lparr>new_access_token = create_access_token c cfg now_issue [''user_id'' \<mapsto> u] None,
             new_token_type = ''bearer''\<rparr>"
    unfolding refresh_cases by simp
  show "jwt_claims (create_access_token c cfg now_issue [''user_id'' \<mapsto> u] None) ''user_id'' = Some u"
    by (simp add: create_access_token_def jwt_encode_def Let_def)
  {
    fix t assume "t < now_issue + timedelta_minutes (ACCESS_TOKEN_EXPIRE_MINUTES cfg)"
    then show "get_current_user c cfg t (create_access_token c cfg now_issue [''user_id'' \<mapsto> u] None) = Inr u"
      unfolding get_current_user_cases create_access_token_def by (simp add: verify_issued Let_def)
  }
  {
    fix t t' e assume b: "claims ''exp'' = Some e \<and> t < e"
    show again: "verify_token c cfg t token = Inr (Some claims)"
      using verify_token_again [of c cfg now_verify token claims e t] a b by simp
    show "refresh c cfg t t' token =
               Inr \<lparr>new_access_token = create_access_token c cfg t' [''user_id'' \<mapsto> u] None,
                    new_token_type = ''bearer''\<rparr>"
      unfolding refresh_cases again using a by simp
  }
next
  show "(\<exists>r. refresh c cfg now_verify now_issue token = Inr r)
      = (\<exists>claims u. verify_token c cfg now_verify token = Inr (Some claims) \<and> claims ''user_id'' = Some u)"
    unfolding refresh_cases by (auto split: sum.splits option.splits)
next
  assume "\<not> (\<exists>claims u. verify_token c cfg now_verify token = Inr (Some claims) \<and> claims ''user_id'' = Some u)"
  then show "\<exists>d. refresh c cfg now_verify now_issue token = Inl (HTTPException 401 d [])"
    using verify_token_never_raises [of c cfg now_verify token]
    unfolding refresh_cases by (auto split: sum.splits option.splits)
qed

theorem refresh_outcomes_witness:
  "verify_token example_library example_cfg 50 (create_refresh_token example_library example_cfg 0 [''user_id'' \<mapsto> 7])
     = Inr (Some [''user_id'' \<mapsto> 7, ''exp'' \<mapsto> 604800000000])
 \<and> refresh example_library example_cfg 50 51 (create_refresh_token example_library example_cfg 0 [''user_id'' \<mapsto> 7])
     = Inr \<lparr>new_access_token = create_access_token example_library example_cfg 51 [''user_id'' \<mapsto> 7] None,
            new_token_type = ''bearer''\<rparr>
 \<and> refresh example_library example_cfg 60 61 (create_refresh_token example_library example_cfg 0 [''user_id'' \<mapsto> 7])
     = Inr \<lparr>new_access_token = create_access_token example_library example_cfg 61 [''user_id'' \<mapsto> 7] None,
            new_token_type = ''bearer''\<rparr>
 \<and> (\<exists>d. refresh example_library example_cfg 50 51 (Malformed (ascii ''garbage'')) = Inl (HTTPException 401 d []))"
proof -
  let ?tok = "create_refresh_token example_library example_cfg 0 [''user_id'' \<mapsto> 7]"
  let ?claims = "[''user_id'' \<mapsto> 7, ''exp'' \<mapsto> (604800000000::int)]"
  have days: "REFRESH_TOKEN_EXPIRE_DAYS example_cfg = 7" by (simp add: example_cfg_def)
  have v: "verify_token example_library example_cfg 50 ?tok = Inr (Some ?claims)"
    by (simp add: create_refresh_token_def verify_issued timedelta_days_def days Let_def)
  have s: "?claims ''user_id'' = Some 7" by simp
  note ok = refresh_outcomes [where c = example_library and cfg = example_cfg and now_verify = 50
      and token = ?tok and claims = ?claims and u = 7, THEN conjunct1, rule_format, OF conjI, OF v s]
  have 1: "refresh example_library example_cfg 50 51 ?tok
     = Inr \<lparr>new_access_token = create_access_token example_library example_cfg 51 [''user_id'' \<mapsto> 7] None,
            new_token_type = ''bearer''\<rparr>"
    using ok [where now_issue = 51, THEN conjunct1] .
  have 2: "refresh example_library example_cfg 60 61 ?tok
     = Inr \<lparr>new_access_token = create_access_token example_library example_cfg 61 [''user_id'' \<mapsto> 7] None,
            new_token_type = ''bearer''\<rparr>"
    using ok [where now_issue = 51, THEN conjunct2, THEN conjunct2, THEN conjunct2, rule_format,
        of 604800000000 60 61] by simp
  have n: "\<not> (\<exists>claims u. verify_token example_library example_cfg 50 (Malformed (ascii ''garbage'')) = Inr (Some claims)
              \<and> claims ''user_id'' = Some u)"
    by (simp add: verify_token_Malformed)
  have 3: "\<exists>d. refresh example_library example_cfg 50 51 (Malformed (ascii ''garbage'')) = Inl (HTTPException 401 d [])"
    using refresh_outcomes [where c = example_library and cfg = example_cfg and now_verify = 50
      and token = "Malformed (ascii ''garbage'')" and now_issue = 51, THEN conjunct2, THEN conjunct2, rule_format, OF n] .
  show ?thesis
    using v 1 2 3 by simp
qed

end
